theory Spec2Isabelle
  imports Complex_Main
begin

section \<open>Conventions of the embedding\<close>

text \<open>
  The TypeScript sources are embedded as follows.
  \<^item> TypeScript's types are erased when the program runs. A value that comes from outside
    the program (a response body, a configuration object) is therefore a JavaScript value
    of any shape: type \<open>jsval\<close> for response bodies, and \<open>number\<close> with \<open>NaN\<close> and the two
    infinities for the numeric fields of a configuration. Negative zero is not told apart
    from zero.
  \<^item> Values the program computes itself from literals and \<open>Math.random()\<close> are finite; the
    generators of synthetic data are given on records with the source's field names and
    \<open>real\<close> numbers (rounding of doubles is outside the model), and their results enter
    the running program through the encoders \<open>ofStockData\<close>, \<open>ofNewsData\<close> and so on.
  \<^item> A union of string literals is a \<^theory_text>\<open>datatype\<close>. Field names shared by several
    interfaces are written qualified (\<open>StockInfo.symbol\<close>); the fields \<open>open\<close>, \<open>id\<close> and
    \<open>size\<close> are written \<open>open'\<close>, \<open>id'\<close> and \<open>size'\<close>, the plain names being constants of
    HOL.
  \<^item> A rejected promise or a thrown exception is the left injection of a sum type, a
    resolved promise the right injection.
  \<^item> \<open>Math.random()\<close> reads the next element of a stream of draws \<open>nat \<Rightarrow> real\<close>, every
    element of which lies in \<open>[0, 1)\<close>; \<open>new Date()\<close> and \<open>Date.now()\<close> read a clock that
    yields milliseconds since the epoch as an \<open>int\<close>.
\<close>

section \<open>JavaScript numbers and values\<close>

datatype number = Finite real | PosInfinity | NegInfinity | NaN

text \<open>The relational operators \<open><\<close>, \<open>>=\<close> and \<open><=\<close>: each is false as soon as an operand
  is \<open>NaN\<close>.\<close>

definition numLess :: "number \<Rightarrow> number \<Rightarrow> bool" where
  "numLess a b =
    (case (a, b) of
       (Finite x, Finite y) \<Rightarrow> x < y
     | (Finite x, PosInfinity) \<Rightarrow> True
     | (NegInfinity, Finite y) \<Rightarrow> True
     | (NegInfinity, PosInfinity) \<Rightarrow> True
     | _ \<Rightarrow> False)"

definition numGeq :: "number \<Rightarrow> number \<Rightarrow> bool" where
  "numGeq a b = (a \<noteq> NaN \<and> b \<noteq> NaN \<and> \<not> numLess a b)"

definition numLeq :: "number \<Rightarrow> number \<Rightarrow> bool" where
  "numLeq a b = (a \<noteq> NaN \<and> b \<noteq> NaN \<and> \<not> numLess b a)"

text \<open>The arithmetic the program applies to numbers it has not computed itself.\<close>

definition numSign :: "number \<Rightarrow> real" where
  "numSign a =
    (case a of Finite x \<Rightarrow> sgn x | PosInfinity \<Rightarrow> 1 | NegInfinity \<Rightarrow> - 1 | NaN \<Rightarrow> 0)"

definition numAdd :: "number \<Rightarrow> number \<Rightarrow> number" where
  "numAdd a b =
    (case (a, b) of
       (Finite x, Finite y) \<Rightarrow> Finite (x + y)
     | (NaN, _) \<Rightarrow> NaN
     | (_, NaN) \<Rightarrow> NaN
     | (PosInfinity, NegInfinity) \<Rightarrow> NaN
     | (NegInfinity, PosInfinity) \<Rightarrow> NaN
     | (PosInfinity, _) \<Rightarrow> PosInfinity
     | (_, PosInfinity) \<Rightarrow> PosInfinity
     | (NegInfinity, _) \<Rightarrow> NegInfinity
     | (_, NegInfinity) \<Rightarrow> NegInfinity)"

definition numMul :: "number \<Rightarrow> number \<Rightarrow> number" where
  "numMul a b =
    (case (a, b) of
       (Finite x, Finite y) \<Rightarrow> Finite (x * y)
     | (NaN, _) \<Rightarrow> NaN
     | (_, NaN) \<Rightarrow> NaN
     | _ \<Rightarrow>
         if numSign a * numSign b = 0 then NaN
         else if numSign a * numSign b > 0 then PosInfinity
         else NegInfinity)"

definition numDiv :: "number \<Rightarrow> number \<Rightarrow> number" where
  "numDiv a b =
    (case (a, b) of
       (NaN, _) \<Rightarrow> NaN
     | (_, NaN) \<Rightarrow> NaN
     | (Finite x, Finite y) \<Rightarrow>
         if y \<noteq> 0 then Finite (x / y)
         else if x = 0 then NaN
         else if x > 0 then PosInfinity
         else NegInfinity
     | (Finite x, _) \<Rightarrow> Finite 0
     | (_, Finite y) \<Rightarrow>
         if numSign a * (if y < 0 then - 1 else 1) > 0 then PosInfinity else NegInfinity
     | _ \<Rightarrow> NaN)"

text \<open>\<open>Math.floor\<close>\<close>

definition numFloor :: "number \<Rightarrow> number" where
  "numFloor a = (case a of Finite x \<Rightarrow> Finite (of_int \<lfloor>x\<rfloor>) | _ \<Rightarrow> a)"

text \<open>
  A JavaScript value as \<open>JSON.parse\<close> or an object literal of the program yields it; an
  object is the list of its own properties, each name at most once.
\<close>

datatype jsval =
  Undefined
  | Null
  | Boolean bool
  | Number number
  | Str string
  | Array "jsval list"
  | Object "(string \<times> jsval) list"

datatype js_error = TypeError | SyntaxError | Error string

text \<open>
  Reading a property \<open>v.f\<close>, for the data properties the program reads (none of them is a
  method or an inherited property): on \<open>null\<close> and \<open>undefined\<close> the read throws a
  \<open>TypeError\<close>; an object yields its own property or \<open>undefined\<close>; arrays and strings have
  \<open>length\<close>; everything else yields \<open>undefined\<close>.
\<close>

definition nullish :: "jsval \<Rightarrow> bool" where
  "nullish v = (v = Null \<or> v = Undefined)"

definition propOf :: "jsval \<Rightarrow> string \<Rightarrow> jsval" where
  "propOf v f =
    (case v of
       Object kvs \<Rightarrow> (case map_of kvs f of Some x \<Rightarrow> x | None \<Rightarrow> Undefined)
     | Array xs \<Rightarrow> if f = ''length'' then Number (Finite (real (length xs))) else Undefined
     | Str s \<Rightarrow> if f = ''length'' then Number (Finite (real (length s))) else Undefined
     | _ \<Rightarrow> Undefined)"

definition getProp :: "jsval \<Rightarrow> string \<Rightarrow> js_error + jsval" where
  "getProp v f = (if nullish v then Inl TypeError else Inr (propOf v f))"

text \<open>
  An object literal \<open>{ k1: v.f1, k2: v.f2, ... }\<close> whose properties are all read from the
  same value \<open>v\<close>: the first read throws on \<open>null\<close> and \<open>undefined\<close>.
\<close>

definition pick :: "jsval \<Rightarrow> (string \<times> string) list \<Rightarrow> js_error + jsval" where
  "pick v fields =
    (if nullish v \<and> fields \<noteq> [] then Inl TypeError
     else Inr (Object (map (\<lambda>(k, f). (k, propOf v f)) fields)))"

text \<open>Running a callback over the elements of a list until one throws.\<close>

fun mapM :: "('a \<Rightarrow> js_error + 'b) \<Rightarrow> 'a list \<Rightarrow> js_error + 'b list" where
  "mapM f [] = Inr []"
| "mapM f (x # xs) =
    (case f x of
       Inl e \<Rightarrow> Inl e
     | Inr y \<Rightarrow> (case mapM f xs of Inl e \<Rightarrow> Inl e | Inr ys \<Rightarrow> Inr (y # ys)))"

fun foldM :: "('s \<Rightarrow> 'a \<Rightarrow> js_error + 's) \<Rightarrow> 's \<Rightarrow> 'a list \<Rightarrow> js_error + 's" where
  "foldM f s [] = Inr s"
| "foldM f s (x # xs) = (case f s x of Inl e \<Rightarrow> Inl e | Inr s' \<Rightarrow> foldM f s' xs)"

text \<open>
  The method calls \<open>v.map(callback)\<close> and \<open>v.slice(-4)\<close>. Only an array has a callable
  \<open>map\<close>; arrays and strings have \<open>slice\<close>; on any other value the call throws a
  \<open>TypeError\<close> (the property read on \<open>null\<close> and \<open>undefined\<close>, the call of something that is
  no function elsewhere).
\<close>

definition arrayMap :: "jsval \<Rightarrow> (jsval \<Rightarrow> js_error + jsval) \<Rightarrow> js_error + jsval" where
  "arrayMap v callback =
    (case v of
       Array xs \<Rightarrow> (case mapM callback xs of Inl e \<Rightarrow> Inl e | Inr ys \<Rightarrow> Inr (Array ys))
     | _ \<Rightarrow> Inl TypeError)"

definition sliceLast :: "nat \<Rightarrow> 'a list \<Rightarrow> 'a list" where
  "sliceLast k xs = drop (length xs - k) xs"

definition sliceMinus4 :: "jsval \<Rightarrow> js_error + jsval" where
  "sliceMinus4 v =
    (case v of
       Array xs \<Rightarrow> Inr (Array (sliceLast 4 xs))
     | Str s \<Rightarrow> Inr (Str (sliceLast 4 s))
     | _ \<Rightarrow> Inl TypeError)"

section \<open>Model configuration: \<open>src/config/modelConfig.ts\<close>\<close>

datatype scalingMethod = Minmax | Standard | Robust

datatype weightingStrategy = Linear | Exponential | Sigmoid

record lstmConfig =
  sequenceLength :: number
  hiddenUnits :: number
  layers :: number
  dropout :: number
  recurrentDropout :: number

record earlyStoppingConfig =
  patience :: number
  minDelta :: number

record trainingConfig =
  epochs :: number
  batchSize :: number
  learningRate :: number
  validationSplit :: number
  earlyStopping :: earlyStoppingConfig

record dataConfig =
  features :: "string list"
  targetColumn :: string
  scalingMethod :: scalingMethod
  testSize :: number
  predictionDays :: number

record sentimentThresholdConfig =
  positive :: number
  negative :: number

record finbertConfig =
  model :: string
  maxLength :: number
  sentimentThreshold :: sentimentThresholdConfig
  weightingStrategy :: weightingStrategy

record newsConfig =
  maxArticles :: number
  timeWindow :: number
  sources :: "string list"
  relevanceThreshold :: number

record apiConfig =
  yfinanceTimeout :: number
  newsApiTimeout :: number
  retryAttempts :: number
  cacheTimeout :: number

text \<open>The interface \<open>ModelConfig\<close>, read as a value: what \<open>validateModelConfig\<close> inspects.\<close>

record ModelConfig =
  lstm :: lstmConfig
  training :: trainingConfig
  data :: dataConfig
  finbert :: finbertConfig
  news :: newsConfig
  api :: apiConfig

subsection \<open>\<open>validateModelConfig\<close>\<close>

text \<open>
  The source starts from \<open>errors = []\<close> and runs eleven \<open>if (...) errors.push(msg)\<close>
  statements in a row; \<open>push_if\<close> is one such statement. The conditions are the source's
  comparisons, with JavaScript's meaning on \<open>NaN\<close>.
\<close>

definition push_if :: "bool \<Rightarrow> string \<Rightarrow> string list \<Rightarrow> string list" where
  "push_if b msg errors = (if b then errors @ [msg] else errors)"

definition validateModelConfig :: "ModelConfig \<Rightarrow> string list" where
  "validateModelConfig config =
    (let errors = [];
         errors = push_if (numLess (sequenceLength (ModelConfig.lstm config)) (Finite 1))
                    ''LSTM sequence length must be at least 1'' errors;
         errors = push_if (numLess (hiddenUnits (ModelConfig.lstm config)) (Finite 1))
                    ''LSTM hidden units must be at least 1'' errors;
         errors = push_if (numLess (layers (ModelConfig.lstm config)) (Finite 1))
                    ''LSTM layers must be at least 1'' errors;
         errors = push_if (numLess (dropout (ModelConfig.lstm config)) (Finite 0)
                           \<or> numGeq (dropout (ModelConfig.lstm config)) (Finite 1))
                    ''LSTM dropout must be between 0 and 1'' errors;
         errors = push_if (numLess (epochs (ModelConfig.training config)) (Finite 1))
                    ''Training epochs must be at least 1'' errors;
         errors = push_if (numLess (batchSize (ModelConfig.training config)) (Finite 1))
                    ''Training batch size must be at least 1'' errors;
         errors = push_if (numLeq (learningRate (ModelConfig.training config)) (Finite 0))
                    ''Learning rate must be positive'' errors;
         errors = push_if (numLess (validationSplit (ModelConfig.training config)) (Finite 0)
                           \<or> numGeq (validationSplit (ModelConfig.training config)) (Finite 1))
                    ''Validation split must be between 0 and 1'' errors;
         errors = push_if (length (features (ModelConfig.data config)) = 0)
                    ''At least one feature must be specified'' errors;
         errors = push_if (numLess (testSize (ModelConfig.data config)) (Finite 0)
                           \<or> numGeq (testSize (ModelConfig.data config)) (Finite 1))
                    ''Test size must be between 0 and 1'' errors;
         errors = push_if (numLess (predictionDays (ModelConfig.data config)) (Finite 1))
                    ''Prediction days must be at least 1'' errors
     in errors)"

text \<open>
  The specification's wording of the same check, for comparison with the code: a table of
  the eleven range constraints, each with the message reported when it is violated, and
  the list of the messages of the violated rows in table order. A constraint such as
  \<open>sequenceLength \<ge> 1\<close> holds of a number that is at least 1; it does not hold of \<open>NaN\<close>.
\<close>

definition rangeConstraints :: "ModelConfig \<Rightarrow> (bool \<times> string) list" where
  "rangeConstraints config =
    [(numGeq (sequenceLength (ModelConfig.lstm config)) (Finite 1),
        ''LSTM sequence length must be at least 1''),
     (numGeq (hiddenUnits (ModelConfig.lstm config)) (Finite 1),
        ''LSTM hidden units must be at least 1''),
     (numGeq (layers (ModelConfig.lstm config)) (Finite 1),
        ''LSTM layers must be at least 1''),
     (numGeq (dropout (ModelConfig.lstm config)) (Finite 0)
        \<and> numLess (dropout (ModelConfig.lstm config)) (Finite 1),
        ''LSTM dropout must be between 0 and 1''),
     (numGeq (epochs (ModelConfig.training config)) (Finite 1),
        ''Training epochs must be at least 1''),
     (numGeq (batchSize (ModelConfig.training config)) (Finite 1),
        ''Training batch size must be at least 1''),
     (numLess (Finite 0) (learningRate (ModelConfig.training config)),
        ''Learning rate must be positive''),
     (numGeq (validationSplit (ModelConfig.training config)) (Finite 0)
        \<and> numLess (validationSplit (ModelConfig.training config)) (Finite 1),
        ''Validation split must be between 0 and 1''),
     (features (ModelConfig.data config) \<noteq> [], ''At least one feature must be specified''),
     (numGeq (testSize (ModelConfig.data config)) (Finite 0)
        \<and> numLess (testSize (ModelConfig.data config)) (Finite 1),
        ''Test size must be between 0 and 1''),
     (numGeq (predictionDays (ModelConfig.data config)) (Finite 1),
        ''Prediction days must be at least 1'')]"

definition violationMessages :: "ModelConfig \<Rightarrow> string list" where
  "violationMessages config = map snd (filter (\<lambda>row. \<not> fst row) (rangeConstraints config))"

definition allConstraintsHold :: "ModelConfig \<Rightarrow> bool" where
  "allConstraintsHold config = list_all fst (rangeConstraints config)"

text \<open>None of the ten numeric fields the check reads is \<open>NaN\<close>.\<close>

definition nanFree :: "ModelConfig \<Rightarrow> bool" where
  "nanFree config =
    list_all (\<lambda>x. x \<noteq> NaN)
      [sequenceLength (ModelConfig.lstm config), hiddenUnits (ModelConfig.lstm config),
       layers (ModelConfig.lstm config), dropout (ModelConfig.lstm config),
       epochs (ModelConfig.training config), batchSize (ModelConfig.training config),
       learningRate (ModelConfig.training config),
       validationSplit (ModelConfig.training config), testSize (ModelConfig.data config),
       predictionDays (ModelConfig.data config)]"

subsection \<open>\<open>defaultModelConfig\<close> and \<open>getModelConfig\<close>\<close>

text \<open>
  \<open>getModelConfig\<close> assigns to properties of nested objects, so object identity matters
  here. Nested objects live in a store, one table per interface, addressed by references;
  a \<open>ModelConfig\<close> object is the record of the six references its properties hold. The
  \<open>earlyStopping\<close> and \<open>sentimentThreshold\<close> objects are never assigned to and stay inside
  their parents.
\<close>

type_synonym ref = nat

record configObject =
  lstmRef :: ref
  trainingRef :: ref
  dataRef :: ref
  finbertRef :: ref
  newsRef :: ref
  apiRef :: ref

record store =
  lstmObjects :: "ref \<rightharpoonup> lstmConfig"
  trainingObjects :: "ref \<rightharpoonup> trainingConfig"
  dataObjects :: "ref \<rightharpoonup> dataConfig"
  finbertObjects :: "ref \<rightharpoonup> finbertConfig"
  newsObjects :: "ref \<rightharpoonup> newsConfig"
  apiObjects :: "ref \<rightharpoonup> apiConfig"

text \<open>
  The object literal bound to \<open>defaultModelConfig\<close>: its values, the store the literal
  allocates its six nested objects in when the module is loaded, and the top-level object
  that refers to them.
\<close>

definition defaultValues :: ModelConfig where
  "defaultValues =
    \<lparr>lstm =
       \<lparr>sequenceLength = Finite 60, hiddenUnits = Finite 128, layers = Finite 2,
        dropout = Finite 0.2, recurrentDropout = Finite 0.2\<rparr>,
     training =
       \<lparr>epochs = Finite 100, batchSize = Finite 32, learningRate = Finite 0.001,
        validationSplit = Finite 0.2,
        earlyStopping = \<lparr>patience = Finite 10, minDelta = Finite 0.001\<rparr>\<rparr>,
     data =
       \<lparr>features = [''close'', ''volume'', ''high'', ''low'', ''open'', ''sentiment_score'',
                    ''news_volume'', ''volatility'', ''rsi'', ''macd'', ''bollinger_upper'',
                    ''bollinger_lower''],
        targetColumn = ''close'', scalingMethod = Minmax, testSize = Finite 0.2,
        predictionDays = Finite 3\<rparr>,
     finbert =
       \<lparr>model = ''ProsusAI/finbert'', maxLength = Finite 512,
        sentimentThreshold = \<lparr>positive = Finite 0.3, negative = Finite (- 0.3)\<rparr>,
        weightingStrategy = Exponential\<rparr>,
     news =
       \<lparr>maxArticles = Finite 50, timeWindow = Finite 72,
        sources = [''reuters'', ''bloomberg'', ''cnbc'', ''marketwatch'', ''financial-times'',
                   ''wsj''],
        relevanceThreshold = Finite 0.5\<rparr>,
     api =
       \<lparr>yfinanceTimeout = Finite 30000, newsApiTimeout = Finite 15000,
        retryAttempts = Finite 3, cacheTimeout = Finite 300000\<rparr>\<rparr>"

definition initialStore :: store where
  "initialStore =
    \<lparr>lstmObjects = [0 \<mapsto> ModelConfig.lstm defaultValues],
     trainingObjects = [1 \<mapsto> ModelConfig.training defaultValues],
     dataObjects = [2 \<mapsto> ModelConfig.data defaultValues],
     finbertObjects = [3 \<mapsto> ModelConfig.finbert defaultValues],
     newsObjects = [4 \<mapsto> ModelConfig.news defaultValues],
     apiObjects = [5 \<mapsto> ModelConfig.api defaultValues]\<rparr>"

definition defaultModelConfig :: configObject where
  "defaultModelConfig =
    \<lparr>lstmRef = 0, trainingRef = 1, dataRef = 2, finbertRef = 3, newsRef = 4, apiRef = 5\<rparr>"

text \<open>Reading a whole configuration through its references (\<open>None\<close> on a dangling one).\<close>

definition readConfig :: "store \<Rightarrow> configObject \<Rightarrow> ModelConfig option" where
  "readConfig h c =
    (case (lstmObjects h (lstmRef c), trainingObjects h (trainingRef c),
           dataObjects h (dataRef c), finbertObjects h (finbertRef c),
           newsObjects h (newsRef c), apiObjects h (apiRef c)) of
       (Some l, Some t, Some d, Some f, Some n, Some a) \<Rightarrow>
         Some \<lparr>lstm = l, training = t, data = d, finbert = f, news = n, api = a\<rparr>
     | _ \<Rightarrow> None)"

text \<open>Property assignments \<open>config.training.epochs = v\<close> and the like: the object the
  reference points to is updated in the store.\<close>

definition assignTrainingEpochs :: "ref \<Rightarrow> number \<Rightarrow> store \<Rightarrow> store" where
  "assignTrainingEpochs r v h =
    h\<lparr>trainingObjects := (trainingObjects h)(r := map_option (\<lambda>t. t\<lparr>epochs := v\<rparr>) (trainingObjects h r))\<rparr>"

definition assignLstmSequenceLength :: "ref \<Rightarrow> number \<Rightarrow> store \<Rightarrow> store" where
  "assignLstmSequenceLength r v h =
    h\<lparr>lstmObjects := (lstmObjects h)(r := map_option (\<lambda>l. l\<lparr>sequenceLength := v\<rparr>) (lstmObjects h r))\<rparr>"

definition assignNewsMaxArticles :: "ref \<Rightarrow> number \<Rightarrow> store \<Rightarrow> store" where
  "assignNewsMaxArticles r v h =
    h\<lparr>newsObjects := (newsObjects h)(r := map_option (\<lambda>n. n\<lparr>maxArticles := v\<rparr>) (newsObjects h r))\<rparr>"

definition assignApiCacheTimeout :: "ref \<Rightarrow> number \<Rightarrow> store \<Rightarrow> store" where
  "assignApiCacheTimeout r v h =
    h\<lparr>apiObjects := (apiObjects h)(r := map_option (\<lambda>a. a\<lparr>cacheTimeout := v\<rparr>) (apiObjects h r))\<rparr>"

datatype environment = Development | Production | Testing

text \<open>
  \<open>const config = { ...defaultModelConfig }\<close> creates a new top-level object whose six
  properties hold the references \<open>defaultModelConfig\<close>'s properties hold; the \<open>switch\<close>
  then assigns through them. The result is the new object and the store afterwards.
\<close>

definition getModelConfig :: "environment \<Rightarrow> store \<Rightarrow> configObject \<times> store" where
  "getModelConfig env h =
    (let config = \<lparr>lstmRef = lstmRef defaultModelConfig,
                    trainingRef = trainingRef defaultModelConfig,
                    dataRef = dataRef defaultModelConfig,
                    finbertRef = finbertRef defaultModelConfig,
                    newsRef = newsRef defaultModelConfig,
                    apiRef = apiRef defaultModelConfig\<rparr>
     in case env of
          Development \<Rightarrow>
            (let h = assignTrainingEpochs (trainingRef config) (Finite 10) h;
                 h = assignLstmSequenceLength (lstmRef config) (Finite 30) h;
                 h = assignNewsMaxArticles (newsRef config) (Finite 10) h
             in (config, h))
        | Testing \<Rightarrow>
            (let h = assignTrainingEpochs (trainingRef config) (Finite 5) h;
                 h = assignLstmSequenceLength (lstmRef config) (Finite 10) h;
                 h = assignNewsMaxArticles (newsRef config) (Finite 5) h;
                 h = assignApiCacheTimeout (apiRef config) (Finite 1000) h
             in (config, h))
        | Production \<Rightarrow> (config, h))"

text \<open>\<open>defaultModelConfig.training.epochs\<close>, read in a given store.\<close>

definition defaultTrainingEpochs :: "store \<Rightarrow> number option" where
  "defaultTrainingEpochs h =
    map_option epochs (trainingObjects h (trainingRef defaultModelConfig))"

section \<open>The data provider: \<open>src/services/lstmModelService.ts\<close>\<close>

subsection \<open>Interfaces\<close>

text \<open>
  The declared interfaces, for the values the program builds itself. In these records a
  date or time is kept as a number: an ISO timestamp (\<open>toISOString()\<close>) as its instant in
  milliseconds since the epoch, an ISO date (\<open>toISOString().split('T')[0]\<close>) as its UTC
  day number, whose order is the order of the date strings, and a chart label
  (\<open>toLocaleDateString\<close>) as the instant it renders. The encoders below turn them into the
  strings the host prints.
\<close>

datatype sentiment = Positive | Negative | Neutral

datatype trend = Bullish | Bearish | Sideways

record StockData =
  symbol :: string
  name :: string
  currentPrice :: real
  change :: real
  changePercent :: real
  volume :: real
  marketCap :: string
  high52Week :: real
  low52Week :: real
  peRatio :: real
  dividendYield :: real

record HistoricalData =
  date :: int
  open' :: real
  high :: real
  low :: real
  close :: real
  volume :: real
  adjustedClose :: real

record LSTMPrediction =
  date :: int
  predictedPrice :: real
  confidence :: real
  upperBound :: real
  lowerBound :: real

record NewsData =
  id' :: string
  headline :: string
  summary :: string
  content :: string
  sentiment :: sentiment
  sentimentScore :: real
  finbertScore :: real
  source :: string
  publishedAt :: int
  relevanceScore :: real

record modelMetrics =
  accuracy :: real
  mse :: real
  rmse :: real
  mae :: real
  r2Score :: real

record sentimentWeights =
  positive :: real
  negative :: real
  neutral :: real
  overallSentiment :: real

record ModelPredictionResult =
  symbol :: string
  currentPrice :: real
  historical :: "HistoricalData list"
  predictions :: "LSTMPrediction list"
  modelMetrics :: modelMetrics
  sentimentWeights :: sentimentWeights
  trend :: trend
  confidence :: real
  lastUpdated :: int

subsection \<open>\<open>fetch\<close> and its failures\<close>

text \<open>
  What a \<open>fetch\<close> call can come to: the promise rejects (transport failure), or it
  resolves to a response with its \<open>ok\<close> flag and status text, whose \<open>json()\<close> either
  rejects (the body is not JSON) or resolves to the parsed body, a value of any shape:
  the code returns it unchecked.
\<close>

record response =
  ok :: bool
  statusText :: string
  json :: "js_error + jsval"

type_synonym fetched = "js_error + response"

text \<open>
  The statements every provider method runs inside its \<open>try\<close> block:
  \<open>const response = await fetch(...); if (!response.ok) throw new Error(msg + statusText);
  const data = await response.json();\<close>
\<close>

definition awaitJson :: "string \<Rightarrow> fetched \<Rightarrow> js_error + jsval" where
  "awaitJson msg fetched =
    (case fetched of
       Inl e \<Rightarrow> Inl e
     | Inr response \<Rightarrow>
         if \<not> ok response then Inl (Error (msg @ statusText response))
         else json response)"

text \<open>The three failures the provider absorbs: the request rejects, the status is not a
  success, or the body does not parse.\<close>

definition upstreamFailure :: "fetched \<Rightarrow> bool" where
  "upstreamFailure fetched =
    (case fetched of
       Inl e \<Rightarrow> True
     | Inr response \<Rightarrow> \<not> ok response \<or> isl (json response))"

subsection \<open>Built-ins of the host\<close>

definition msPerDay :: int where
  "msPerDay = 24 * 60 * 60 * 1000"

text \<open>
  The local time zone of the host: the offset of local time from UTC in milliseconds, at a
  UTC instant and at a local wall-clock time (ECMAScript's \<open>LocalTZA(t, true)\<close> and
  \<open>LocalTZA(t, false)\<close>). They differ around a daylight-saving change.
\<close>

record zone =
  offsetAtInstant :: "int \<Rightarrow> int"
  offsetAtLocal :: "int \<Rightarrow> int"

text \<open>
  \<open>d.setDate(d.getDate() + k)\<close> on the instant \<open>t\<close>: the instant is turned into local
  wall-clock time, moved by \<open>k\<close> calendar days at the same time of day, and turned back
  into an instant.
\<close>

definition setDate :: "zone \<Rightarrow> int \<Rightarrow> int \<Rightarrow> int" where
  "setDate z t k =
    (let localTime = t + offsetAtInstant z t;
         moved = localTime + k * msPerDay
     in moved - offsetAtLocal z moved)"

text \<open>\<open>d.toISOString().split('T')[0]\<close>: the UTC day of an instant.\<close>

definition isoDate :: "int \<Rightarrow> int" where
  "isoDate t = t div msPerDay"

text \<open>\<open>String.prototype.toUpperCase\<close>, on ASCII strings (ticker symbols).\<close>

definition upperChar :: "char \<Rightarrow> char" where
  "upperChar c =
    (let n = (of_char c :: nat) in if 97 \<le> n \<and> n \<le> 122 then char_of (n - 32) else c)"

definition toUpperCase :: "string \<Rightarrow> string" where
  "toUpperCase s = map upperChar s"

text \<open>The decimal numeral of an integer, as a template literal prints it.\<close>

fun decimal :: "nat \<Rightarrow> string" where
  "decimal n =
    (if n < 10 then [char_of (48 + n)] else decimal (n div 10) @ [char_of (48 + n mod 10)])"

declare decimal.simps [simp del]

definition numberToString :: "int \<Rightarrow> string" where
  "numberToString i = (if i < 0 then ''-'' @ decimal (nat (- i)) else decimal (nat i))"

subsection \<open>\<open>calculateSentimentWeights\<close>\<close>

record sentimentCounters =
  positiveCount :: nat
  negativeCount :: nat
  neutralCount :: nat
  totalSentimentScore :: real

text \<open>The body of the \<open>forEach\<close> callback.\<close>

definition countNews :: "sentimentCounters \<Rightarrow> NewsData \<Rightarrow> sentimentCounters" where
  "countNews acc article =
    (let acc = (case sentiment article of
                  Positive \<Rightarrow> acc\<lparr>positiveCount := positiveCount acc + 1\<rparr>
                | Negative \<Rightarrow> acc\<lparr>negativeCount := negativeCount acc + 1\<rparr>
                | Neutral \<Rightarrow> acc\<lparr>neutralCount := neutralCount acc + 1\<rparr>)
     in acc\<lparr>totalSentimentScore := totalSentimentScore acc + finbertScore article\<rparr>)"

definition calculateSentimentWeights :: "NewsData list \<Rightarrow> sentimentWeights" where
  "calculateSentimentWeights newsData =
    (if length newsData = 0
     then \<lparr>positive = 0.33, negative = 0.33, neutral = 0.34, overallSentiment = 0\<rparr>
     else
       (let acc = foldl countNews
                    \<lparr>positiveCount = 0, negativeCount = 0, neutralCount = 0,
                     totalSentimentScore = 0\<rparr> newsData;
            total = real (length newsData);
            overallSentiment = totalSentimentScore acc / total
        in \<lparr>positive = real (positiveCount acc) / total,
            negative = real (negativeCount acc) / total,
            neutral = real (neutralCount acc) / total,
            overallSentiment = overallSentiment\<rparr>))"

subsection \<open>Synthetic data\<close>

definition getMockStockData :: "string \<Rightarrow> (nat \<Rightarrow> real) \<Rightarrow> StockData" where
  "getMockStockData ticker rnd =
    (let basePrice = rnd 0 * 200 + 50;
         change = (rnd 1 - 0.5) * 10
     in \<lparr>StockData.symbol = toUpperCase ticker,
         name = toUpperCase ticker @ '' Corporation'',
         currentPrice = basePrice,
         change = change,
         changePercent = (change / basePrice) * 100,
         volume = of_int \<lfloor>rnd 2 * 100000000\<rfloor>,
         marketCap = numberToString \<lfloor>rnd 3 * 1000\<rfloor> @ ''B'',
         high52Week = basePrice * 1.3,
         low52Week = basePrice * 0.7,
         peRatio = rnd 4 * 30 + 10,
         dividendYield = rnd 5 * 5\<rparr>)"

text \<open>
  The loop \<open>for (let i = 30; i >= 0; i--)\<close> of \<open>getMockHistoricalData\<close>. Each round
  reads the clock once and draws five random numbers; \<open>m\<close> counts the clock reads and
  \<open>n\<close> the draws made so far, \<open>price\<close> is the variable \<open>currentPrice\<close> on entry to the
  round and \<open>bars\<close> the array \<open>data\<close>.
\<close>

function mockHistoricalLoop ::
  "int \<Rightarrow> zone \<Rightarrow> (nat \<Rightarrow> int) \<Rightarrow> (nat \<Rightarrow> real) \<Rightarrow> nat \<Rightarrow> nat \<Rightarrow> real
     \<Rightarrow> HistoricalData list \<Rightarrow> HistoricalData list" where
  "mockHistoricalLoop i z clock rnd m n price bars =
    (if i \<ge> 0 then
       (let date = setDate z (clock m) (- i);
            variation = (rnd n - 0.5) * 5;
            currentPrice = price + variation;
            opn = currentPrice + (rnd (n + 1) - 0.5) * 2;
            cls = currentPrice;
            hi = max opn cls + rnd (n + 2) * 3;
            lo = min opn cls - rnd (n + 3) * 3;
            bars = bars @ [\<lparr>HistoricalData.date = isoDate date, open' = opn, high = hi,
                             low = lo, close = cls,
                             volume = of_int \<lfloor>rnd (n + 4) * 10000000\<rfloor>,
                             adjustedClose = cls\<rparr>]
        in mockHistoricalLoop (i - 1) z clock rnd (m + 1) (n + 5) currentPrice bars)
     else bars)"
  by pat_completeness auto
termination
  by (relation "measure (\<lambda>(i, z, clock, rnd, m, n, price, bars). nat (i + 1))") auto

declare mockHistoricalLoop.simps [simp del]

definition getMockHistoricalData ::
  "string \<Rightarrow> zone \<Rightarrow> (nat \<Rightarrow> int) \<Rightarrow> (nat \<Rightarrow> real) \<Rightarrow> HistoricalData list" where
  "getMockHistoricalData ticker z clock rnd =
    (let basePrice = 100 in mockHistoricalLoop 30 z clock rnd 0 0 basePrice [])"

definition hour :: int where
  "hour = 60 * 60 * 1000"

definition getMockNewsData :: "string \<Rightarrow> (nat \<Rightarrow> int) \<Rightarrow> NewsData list" where
  "getMockNewsData ticker clock =
    [\<lparr>id' = ''1'',
      headline = ticker @ '' Reports Strong Q4 Earnings, Beats Analyst Expectations'',
      summary = ''The company delivered impressive quarterly results with revenue growth exceeding market forecasts.'',
      content = ''Full article content would be here...'',
      sentiment = Positive,
      sentimentScore = 0.78,
      finbertScore = 0.82,
      source = ''Financial Times'',
      publishedAt = clock 0 - 2 * hour,
      relevanceScore = 0.95\<rparr>,
     \<lparr>id' = ''2'',
      headline = ''Market Volatility Affects '' @ ticker @ '' Stock Performance'',
      summary = ''Recent market turbulence has impacted stock prices across the sector.'',
      content = ''Full article content would be here...'',
      sentiment = Neutral,
      sentimentScore = - 0.05,
      finbertScore = - 0.02,
      source = ''Reuters'',
      publishedAt = clock 1 - 5 * hour,
      relevanceScore = 0.78\<rparr>,
     \<lparr>id' = ''3'',
      headline = ticker @ '' Faces Regulatory Challenges in Key Markets'',
      summary = ''New regulatory requirements may impact operations in several international markets.'',
      content = ''Full article content would be here...'',
      sentiment = Negative,
      sentimentScore = - 0.42,
      finbertScore = - 0.38,
      source = ''Bloomberg'',
      publishedAt = clock 2 - 8 * hour,
      relevanceScore = 0.85\<rparr>]"

text \<open>The loop \<open>for (let i = 1; i <= 3; i++)\<close> of \<open>getMockPredictionResult\<close>: one clock
  read and two draws per round.\<close>

function mockPredictionLoop ::
  "int \<Rightarrow> zone \<Rightarrow> (nat \<Rightarrow> int) \<Rightarrow> (nat \<Rightarrow> real) \<Rightarrow> nat \<Rightarrow> nat \<Rightarrow> real
     \<Rightarrow> LSTMPrediction list \<Rightarrow> LSTMPrediction list" where
  "mockPredictionLoop i z clock rnd m n price points =
    (if i \<le> 3 then
       (let date = setDate z (clock m) i;
            variation = (rnd n - 0.5) * 10;
            predictedPrice = price + variation;
            confidence = rnd (n + 1) * 0.3 + 0.7;
            points = points @
              [\<lparr>LSTMPrediction.date = isoDate date, predictedPrice = predictedPrice,
                confidence = confidence, upperBound = predictedPrice * 1.05,
                lowerBound = predictedPrice * 0.95\<rparr>]
        in mockPredictionLoop (i + 1) z clock rnd (m + 1) (n + 2) price points)
     else points)"
  by pat_completeness auto
termination
  by (relation "measure (\<lambda>(i, z, clock, rnd, m, n, price, points). nat (4 - i))") auto

declare mockPredictionLoop.simps [simp del]

text \<open>
  \<open>getMockPredictionResult\<close> runs the loop (three clock reads, six draws), then evaluates
  the object literal: \<open>getMockHistoricalData\<close> continues on the same clock and the same
  generator (31 reads, 155 draws), and \<open>lastUpdated\<close> is the read after those.
\<close>

definition getMockPredictionResult ::
  "string \<Rightarrow> zone \<Rightarrow> (nat \<Rightarrow> int) \<Rightarrow> (nat \<Rightarrow> real) \<Rightarrow> ModelPredictionResult" where
  "getMockPredictionResult ticker z clock rnd =
    (let currentPrice = 150;
         predictions = mockPredictionLoop 1 z clock rnd 0 0 currentPrice []
     in \<lparr>ModelPredictionResult.symbol = ticker,
         currentPrice = currentPrice,
         historical = getMockHistoricalData ticker z (\<lambda>k. clock (k + 3)) (\<lambda>k. rnd (k + 6)),
         predictions = predictions,
         modelMetrics = \<lparr>accuracy = 0.85, mse = 2.34, rmse = 1.53, mae = 1.21, r2Score = 0.78\<rparr>,
         sentimentWeights =
           \<lparr>positive = 0.4, negative = 0.3, neutral = 0.3, overallSentiment = 0.15\<rparr>,
         trend = Bullish,
         confidence = 0.82,
         lastUpdated = clock 34\<rparr>)"

subsection \<open>The environment of one call\<close>

text \<open>
  Everything a call of a public operation reads from outside the program: what each of
  the four backend requests comes to, the random draws each generator of synthetic data
  makes, the clock values each reader of the clock sees, and the host: its time zone, how
  it prints dates, and what its coercions yield where an arithmetic operator meets an
  operand that is no number. Concurrent readers (\<open>Promise.all\<close>) have streams of their
  own, so no interleaving is fixed.
\<close>

record world =
  fetchStock :: fetched
  fetchHistorical :: fetched
  fetchNews :: fetched
  fetchPredict :: fetched
  randomStock :: "nat \<Rightarrow> real"
  randomHistorical :: "nat \<Rightarrow> real"
  randomPrediction :: "nat \<Rightarrow> real"
  randomFallback :: "nat \<Rightarrow> real"
  clockHistorical :: "nat \<Rightarrow> int"
  clockNews :: "nat \<Rightarrow> int"
  clockPrediction :: "nat \<Rightarrow> int"
  clockFallback :: "nat \<Rightarrow> int"
  nowUpdated :: int
  nowCheck :: int
  nowStore :: int
  today :: int
  timeZone :: zone
  isoString :: "int \<Rightarrow> string"
  isoDateString :: "int \<Rightarrow> string"
  localeDateString :: "int \<Rightarrow> string"
  hostToNumber :: "jsval \<Rightarrow> number"
  hostAdd :: "jsval \<Rightarrow> jsval \<Rightarrow> jsval"
  hostDivide :: "jsval \<Rightarrow> jsval \<Rightarrow> jsval"

text \<open>
  The operators \<open>+\<close>, \<open>/\<close> and the conversion to a number that \<open>*\<close> applies: on numbers
  they are the arithmetic above, and \<open>undefined\<close>, \<open>null\<close> and booleans convert as the
  language defines; for strings, arrays and objects the result is the host's.
\<close>

definition jsAdd :: "world \<Rightarrow> jsval \<Rightarrow> jsval \<Rightarrow> jsval" where
  "jsAdd w a b =
    (case (a, b) of
       (Number x, Number y) \<Rightarrow> Number (numAdd x y)
     | _ \<Rightarrow> hostAdd w a b)"

definition jsDivide :: "world \<Rightarrow> jsval \<Rightarrow> jsval \<Rightarrow> jsval" where
  "jsDivide w a b =
    (case (a, b) of
       (Number x, Number y) \<Rightarrow> Number (numDiv x y)
     | _ \<Rightarrow> hostDivide w a b)"

definition toNumber :: "world \<Rightarrow> jsval \<Rightarrow> number" where
  "toNumber w v =
    (case v of
       Number x \<Rightarrow> x
     | Undefined \<Rightarrow> NaN
     | Null \<Rightarrow> Finite 0
     | Boolean b \<Rightarrow> Finite (if b then 1 else 0)
     | _ \<Rightarrow> hostToNumber w v)"

subsection \<open>The declared interfaces as values of the running program\<close>

definition num :: "real \<Rightarrow> jsval" where
  "num x = Number (Finite x)"

definition sentimentLabel :: "sentiment \<Rightarrow> string" where
  "sentimentLabel s =
    (case s of Positive \<Rightarrow> ''positive'' | Negative \<Rightarrow> ''negative'' | Neutral \<Rightarrow> ''neutral'')"

definition trendLabel :: "trend \<Rightarrow> string" where
  "trendLabel t =
    (case t of Bullish \<Rightarrow> ''bullish'' | Bearish \<Rightarrow> ''bearish'' | Sideways \<Rightarrow> ''sideways'')"

definition ofStockData :: "StockData \<Rightarrow> jsval" where
  "ofStockData d =
    Object [(''symbol'', Str (StockData.symbol d)),
            (''name'', Str (StockData.name d)),
            (''currentPrice'', num (StockData.currentPrice d)),
            (''change'', num (StockData.change d)),
            (''changePercent'', num (changePercent d)),
            (''volume'', num (StockData.volume d)),
            (''marketCap'', Str (StockData.marketCap d)),
            (''high52Week'', num (high52Week d)),
            (''low52Week'', num (low52Week d)),
            (''peRatio'', num (peRatio d)),
            (''dividendYield'', num (dividendYield d))]"

definition ofHistoricalData :: "world \<Rightarrow> HistoricalData \<Rightarrow> jsval" where
  "ofHistoricalData w b =
    Object [(''date'', Str (isoDateString w (HistoricalData.date b))),
            (''open'', num (open' b)),
            (''high'', num (high b)),
            (''low'', num (low b)),
            (''close'', num (close b)),
            (''volume'', num (HistoricalData.volume b)),
            (''adjustedClose'', num (adjustedClose b))]"

definition ofLSTMPrediction :: "world \<Rightarrow> LSTMPrediction \<Rightarrow> jsval" where
  "ofLSTMPrediction w p =
    Object [(''date'', Str (isoDateString w (LSTMPrediction.date p))),
            (''predictedPrice'', num (predictedPrice p)),
            (''confidence'', num (LSTMPrediction.confidence p)),
            (''upperBound'', num (upperBound p)),
            (''lowerBound'', num (lowerBound p))]"

definition ofNewsData :: "world \<Rightarrow> NewsData \<Rightarrow> jsval" where
  "ofNewsData w a =
    Object [(''id'', Str (id' a)),
            (''headline'', Str (headline a)),
            (''summary'', Str (summary a)),
            (''content'', Str (content a)),
            (''sentiment'', Str (sentimentLabel (sentiment a))),
            (''sentimentScore'', num (sentimentScore a)),
            (''finbertScore'', num (finbertScore a)),
            (''source'', Str (source a)),
            (''publishedAt'', Str (isoString w (publishedAt a))),
            (''relevanceScore'', num (relevanceScore a))]"

definition ofModelMetrics :: "modelMetrics \<Rightarrow> jsval" where
  "ofModelMetrics m =
    Object [(''accuracy'', num (accuracy m)), (''mse'', num (mse m)), (''rmse'', num (rmse m)),
            (''mae'', num (mae m)), (''r2Score'', num (r2Score m))]"

definition ofSentimentWeights :: "sentimentWeights \<Rightarrow> jsval" where
  "ofSentimentWeights s =
    Object [(''positive'', num (positive s)), (''negative'', num (negative s)),
            (''neutral'', num (neutral s)), (''overallSentiment'', num (overallSentiment s))]"

definition ofModelPredictionResult :: "world \<Rightarrow> ModelPredictionResult \<Rightarrow> jsval" where
  "ofModelPredictionResult w r =
    Object [(''symbol'', Str (ModelPredictionResult.symbol r)),
            (''currentPrice'', num (ModelPredictionResult.currentPrice r)),
            (''historical'', Array (map (ofHistoricalData w) (historical r))),
            (''predictions'', Array (map (ofLSTMPrediction w) (predictions r))),
            (''modelMetrics'', ofModelMetrics (modelMetrics r)),
            (''sentimentWeights'', ofSentimentWeights (sentimentWeights r)),
            (''trend'', Str (trendLabel (trend r))),
            (''confidence'', num (ModelPredictionResult.confidence r)),
            (''lastUpdated'', Str (isoString w (lastUpdated r)))]"

subsection \<open>The provider's methods\<close>

text \<open>Each method returns the parsed body as it is, or the synthetic value when anything
  in its \<open>try\<close> block throws.\<close>

definition getStockData :: "string \<Rightarrow> world \<Rightarrow> js_error + jsval" where
  "getStockData ticker w =
    (case awaitJson ''Failed to fetch stock data: '' (fetchStock w) of
       Inr d \<Rightarrow> Inr d
     | Inl error \<Rightarrow> Inr (ofStockData (getMockStockData ticker (randomStock w))))"

definition getHistoricalData :: "string \<Rightarrow> string \<Rightarrow> world \<Rightarrow> js_error + jsval" where
  "getHistoricalData ticker period w =
    (case awaitJson ''Failed to fetch historical data: '' (fetchHistorical w) of
       Inr d \<Rightarrow> Inr d
     | Inl error \<Rightarrow>
         Inr (Array (map (ofHistoricalData w)
                (getMockHistoricalData ticker (timeZone w) (clockHistorical w)
                   (randomHistorical w)))))"

definition getNewsWithSentiment :: "string \<Rightarrow> world \<Rightarrow> js_error + jsval" where
  "getNewsWithSentiment ticker w =
    (case awaitJson ''Failed to fetch news data: '' (fetchNews w) of
       Inr d \<Rightarrow> Inr d
     | Inl error \<Rightarrow> Inr (Array (map (ofNewsData w) (getMockNewsData ticker (clockNews w)))))"

text \<open>
  \<open>calculateSentimentWeights\<close> as it runs on whatever \<open>getNewsWithSentiment\<close> resolved to.
  \<open>newsData.length === 0\<close> reads a property; \<open>newsData.forEach\<close> is callable on arrays only;
  the callback reads \<open>news.sentiment\<close> and \<open>news.finbertScore\<close> and adds the latter to the
  running total with \<open>+=\<close>, whatever it is.
\<close>

record rawCounters =
  positiveCount :: nat
  negativeCount :: nat
  neutralCount :: nat
  totalSentimentScore :: jsval

definition countNewsRaw :: "world \<Rightarrow> rawCounters \<Rightarrow> jsval \<Rightarrow> js_error + rawCounters" where
  "countNewsRaw w acc article =
    (case getProp article ''sentiment'' of
       Inl e \<Rightarrow> Inl e
     | Inr label \<Rightarrow>
         (let acc =
            (if label = Str ''positive''
               then acc\<lparr>rawCounters.positiveCount := rawCounters.positiveCount acc + 1\<rparr>
             else if label = Str ''negative''
               then acc\<lparr>rawCounters.negativeCount := rawCounters.negativeCount acc + 1\<rparr>
             else if label = Str ''neutral''
               then acc\<lparr>rawCounters.neutralCount := rawCounters.neutralCount acc + 1\<rparr>
             else acc)
          in Inr (acc\<lparr>rawCounters.totalSentimentScore :=
                        jsAdd w (rawCounters.totalSentimentScore acc)
                          (propOf article ''finbertScore'')\<rparr>)))"

definition calculateSentimentWeightsRaw :: "world \<Rightarrow> jsval \<Rightarrow> js_error + jsval" where
  "calculateSentimentWeightsRaw w newsData =
    (case getProp newsData ''length'' of
       Inl e \<Rightarrow> Inl e
     | Inr len \<Rightarrow>
         if len = Number (Finite 0)
         then Inr (ofSentimentWeights
                \<lparr>positive = 0.33, negative = 0.33, neutral = 0.34, overallSentiment = 0\<rparr>)
         else
           (case newsData of
              Array xs \<Rightarrow>
                (case foldM (countNewsRaw w)
                        \<lparr>positiveCount = 0, negativeCount = 0, neutralCount = 0,
                         totalSentimentScore = Number (Finite 0)\<rparr> xs of
                   Inl e \<Rightarrow> Inl e
                 | Inr acc \<Rightarrow>
                     (let total = real (length xs);
                          overallSentiment =
                            jsDivide w (rawCounters.totalSentimentScore acc) (num total)
                      in Inr (Object
                           [(''positive'', num (real (rawCounters.positiveCount acc) / total)),
                            (''negative'', num (real (rawCounters.negativeCount acc) / total)),
                            (''neutral'', num (real (rawCounters.neutralCount acc) / total)),
                            (''overallSentiment'', overallSentiment)])))
            | _ \<Rightarrow> Inl TypeError))"

text \<open>
  \<open>generatePredictions\<close>: \<open>Promise.all\<close> rejects as soon as one of the three promises
  does; then the weights and the forecast request; the object literal reads
  \<open>stockData.currentPrice\<close> and four properties of the forecast body; any rejection or
  exception inside the \<open>try\<close> block is caught and answered with \<open>getMockPredictionResult\<close>.
  What the requests carry (the URL, and for the forecast the historical data, the weights,
  \<open>this.modelConfig\<close> and \<open>predictionDays: 3\<close>) reaches the program only through the answers,
  which the environment gives.
\<close>

definition generatePredictions :: "string \<Rightarrow> world \<Rightarrow> js_error + jsval" where
  "generatePredictions ticker w =
    (let attempt =
       (case getStockData ticker w of
          Inl e \<Rightarrow> Inl e
        | Inr stockData \<Rightarrow>
       (case getHistoricalData ticker ''1y'' w of
          Inl e \<Rightarrow> Inl e
        | Inr historicalData \<Rightarrow>
       (case getNewsWithSentiment ticker w of
          Inl e \<Rightarrow> Inl e
        | Inr newsData \<Rightarrow>
       (case calculateSentimentWeightsRaw w newsData of
          Inl e \<Rightarrow> Inl e
        | Inr weights \<Rightarrow>
       (case awaitJson ''Failed to generate predictions: '' (fetchPredict w) of
          Inl e \<Rightarrow> Inl e
        | Inr forecast \<Rightarrow>
            if nullish stockData \<or> nullish forecast then Inl TypeError
            else Inr (Object
                   [(''symbol'', Str ticker),
                    (''currentPrice'', propOf stockData ''currentPrice''),
                    (''historical'', historicalData),
                    (''predictions'', propOf forecast ''predictions''),
                    (''modelMetrics'', propOf forecast ''metrics''),
                    (''sentimentWeights'', weights),
                    (''trend'', propOf forecast ''trend''),
                    (''confidence'', propOf forecast ''confidence''),
                    (''lastUpdated'', Str (isoString w (nowUpdated w)))]))))))
     in case attempt of
          Inr result \<Rightarrow> Inr result
        | Inl error \<Rightarrow>
            Inr (ofModelPredictionResult w
                   (getMockPredictionResult ticker (timeZone w) (clockPrediction w)
                      (randomPrediction w))))"

section \<open>The orchestrator: \<open>src/services/mockStockService.ts\<close>\<close>

subsection \<open>Interfaces and the cache\<close>

text \<open>The declared interfaces of the three results, for the fallback values the
  orchestrator builds itself.\<close>

record StockInfo =
  symbol :: string
  name :: string
  currentPrice :: real
  change :: real
  volume :: real
  marketCap :: string

record PredictionData =
  historical :: "real list"
  predictions :: "real list"
  dates :: "int list"
  trend :: string
  confidence :: real

record NewsItem =
  id' :: string
  headline :: string
  summary :: string
  sentiment :: sentiment
  sentimentScore :: real
  source :: string
  publishedAt :: int

text \<open>The cache stores \<open>data: any\<close>: whatever value an operation handed it.\<close>

type_synonym payload = jsval

record cacheEntry =
  data :: payload
  timestamp :: int

text \<open>A JavaScript \<open>Map\<close> keeps its keys in insertion order: an association list with
  distinct keys, read by \<open>map_of\<close>.\<close>

type_synonym cache = "(string \<times> cacheEntry) list"

definition cacheTimeout :: int where
  "cacheTimeout = 5 * 60 * 1000"

text \<open>
  The cache check each operation starts with:
  \<open>const cached = this.cache.get(cacheKey);
  if (cached && Date.now() - cached.timestamp < this.cacheTimeout) return cached.data;\<close>
\<close>

definition cacheGet :: "cache \<Rightarrow> string \<Rightarrow> int \<Rightarrow> payload option" where
  "cacheGet c cacheKey now =
    (case map_of c cacheKey of
       None \<Rightarrow> None
     | Some cached \<Rightarrow>
         if now - timestamp cached < cacheTimeout then Some (cacheEntry.data cached) else None)"

text \<open>\<open>Map.prototype.set\<close>: an existing key keeps its place and gets the new value, a new
  key goes to the end.\<close>

fun mapSet :: "string \<Rightarrow> cacheEntry \<Rightarrow> cache \<Rightarrow> cache" where
  "mapSet k v [] = [(k, v)]"
| "mapSet k v (p # ps) = (if fst p = k then (k, v) # ps else p # mapSet k v ps)"

text \<open>\<open>this.cache.set(cacheKey, { data: d, timestamp: Date.now() })\<close>\<close>

definition cacheSet :: "cache \<Rightarrow> string \<Rightarrow> payload \<Rightarrow> int \<Rightarrow> cache" where
  "cacheSet c cacheKey d now = mapSet cacheKey \<lparr>data = d, timestamp = now\<rparr> c"

definition clearCache :: "cache \<Rightarrow> cache" where
  "clearCache c = []"

record cacheStats =
  size' :: nat
  keys :: "string list"

definition getCacheStats :: "cache \<Rightarrow> cacheStats" where
  "getCacheStats c = \<lparr>size' = length c, keys = map fst c\<rparr>"

subsection \<open>Fallback generators\<close>

definition getFallbackStockInfo :: "string \<Rightarrow> (nat \<Rightarrow> real) \<Rightarrow> StockInfo" where
  "getFallbackStockInfo ticker rnd =
    (let basePrice = rnd 0 * 200 + 50;
         change = (rnd 1 - 0.5) * 10
     in \<lparr>StockInfo.symbol = toUpperCase ticker,
         name = toUpperCase ticker @ '' Corporation'',
         currentPrice = basePrice,
         change = change,
         volume = of_int \<lfloor>rnd 2 * 100000000\<rfloor>,
         marketCap = numberToString \<lfloor>rnd 3 * 1000\<rfloor> @ ''B''\<rparr>)"

text \<open>\<open>for (let i = 4; i >= 1; i--)\<close>: one draw per round.\<close>

function fallbackHistoricalLoop :: "int \<Rightarrow> (nat \<Rightarrow> real) \<Rightarrow> nat \<Rightarrow> real \<Rightarrow> real list \<Rightarrow> real list" where
  "fallbackHistoricalLoop i rnd n basePrice prices =
    (if i \<ge> 1 then
       (let variation = (rnd n - 0.5) * 10
        in fallbackHistoricalLoop (i - 1) rnd (n + 1) basePrice (prices @ [basePrice + variation]))
     else prices)"
  by pat_completeness auto
termination
  by (relation "measure (\<lambda>(i, rnd, n, basePrice, prices). nat i)") auto

declare fallbackHistoricalLoop.simps [simp del]

text \<open>\<open>for (let i = 0; i < 3; i++)\<close>: two draws per round.\<close>

function fallbackPredictionLoop :: "int \<Rightarrow> (nat \<Rightarrow> real) \<Rightarrow> nat \<Rightarrow> real \<Rightarrow> real list \<Rightarrow> real list" where
  "fallbackPredictionLoop i rnd n price prices =
    (if i < 3 then
       (let trendFactor = (if rnd n > 0.5 then 1.02 else 0.98);
            noise = (rnd (n + 1) - 0.5) * 5;
            lastPrice = price * trendFactor + noise
        in fallbackPredictionLoop (i + 1) rnd (n + 2) lastPrice (prices @ [lastPrice]))
     else prices)"
  by pat_completeness auto
termination
  by (relation "measure (\<lambda>(i, rnd, n, price, prices). nat (3 - i))") auto

declare fallbackPredictionLoop.simps [simp del]

definition getFallbackPredictions ::
  "string \<Rightarrow> zone \<Rightarrow> (nat \<Rightarrow> int) \<Rightarrow> (nat \<Rightarrow> real) \<Rightarrow> PredictionData" where
  "getFallbackPredictions ticker z clock rnd =
    (let basePrice = 100;
         historical = fallbackHistoricalLoop 4 rnd 0 basePrice [];
         predictions = fallbackPredictionLoop 0 rnd 4 (last historical) [];
         now = clock 0;
         dates = map (\<lambda>i. setDate z now (- i)) [6, 5, 4, 3, 2, 1, 0];
         trend = (if last predictions > hd predictions then ''Bullish'' else ''Bearish'')
     in \<lparr>historical = historical,
         predictions = predictions,
         dates = dates,
         trend = trend,
         confidence = of_int \<lfloor>rnd 10 * 20\<rfloor> + 75\<rparr>)"

definition getFallbackNews :: "string \<Rightarrow> (nat \<Rightarrow> int) \<Rightarrow> NewsItem list" where
  "getFallbackNews ticker clock =
    [\<lparr>id' = ''1'',
      headline = ticker @ '' Reports Strong Q4 Earnings, Beats Analyst Expectations'',
      summary = ''The company delivered impressive quarterly results with revenue growth exceeding market forecasts. Strong performance across all business segments.'',
      sentiment = Positive,
      sentimentScore = 0.78,
      source = ''Financial Times'',
      publishedAt = clock 0 - 2 * hour\<rparr>,
     \<lparr>id' = ''2'',
      headline = ''Market Volatility Affects '' @ ticker @ '' Stock Performance'',
      summary = ''Recent market turbulence has impacted stock prices across the sector. Analysts remain cautiously optimistic about long-term prospects.'',
      sentiment = Neutral,
      sentimentScore = - 0.05,
      source = ''Reuters'',
      publishedAt = clock 1 - 5 * hour\<rparr>,
     \<lparr>id' = ''3'',
      headline = ticker @ '' Faces Regulatory Challenges in Key Markets'',
      summary = ''New regulatory requirements may impact operations in several international markets. Company working on compliance strategies.'',
      sentiment = Negative,
      sentimentScore = - 0.42,
      source = ''Bloomberg'',
      publishedAt = clock 2 - 8 * hour\<rparr>]"


subsection \<open>The fallback values as values of the running program\<close>

definition ofStockInfo :: "StockInfo \<Rightarrow> jsval" where
  "ofStockInfo x =
    Object [(''symbol'', Str (StockInfo.symbol x)),
            (''name'', Str (StockInfo.name x)),
            (''currentPrice'', num (StockInfo.currentPrice x)),
            (''change'', num (StockInfo.change x)),
            (''volume'', num (StockInfo.volume x)),
            (''marketCap'', Str (StockInfo.marketCap x))]"

definition ofPredictionData :: "world \<Rightarrow> PredictionData \<Rightarrow> jsval" where
  "ofPredictionData w x =
    Object [(''historical'', Array (map num (PredictionData.historical x))),
            (''predictions'', Array (map num (PredictionData.predictions x))),
            (''dates'', Array (map (\<lambda>t. Str (localeDateString w t)) (dates x))),
            (''trend'', Str (PredictionData.trend x)),
            (''confidence'', num (PredictionData.confidence x))]"

definition ofNewsItem :: "world \<Rightarrow> NewsItem \<Rightarrow> jsval" where
  "ofNewsItem w x =
    Object [(''id'', Str (NewsItem.id' x)),
            (''headline'', Str (NewsItem.headline x)),
            (''summary'', Str (NewsItem.summary x)),
            (''sentiment'', Str (sentimentLabel (NewsItem.sentiment x))),
            (''sentimentScore'', num (NewsItem.sentimentScore x)),
            (''source'', Str (NewsItem.source x)),
            (''publishedAt'', Str (isoString w (NewsItem.publishedAt x)))]"

subsection \<open>The public operations\<close>

text \<open>
  What a call of a public operation comes to: how its promise settles, the cache it
  leaves, and the calls of provider methods it made.
\<close>

datatype providerCall =
  GetStockData string
  | GeneratePredictions string
  | GetNewsWithSentiment string

record outcome =
  settled :: "js_error + payload"
  cacheAfter :: cache
  providerCalls :: "providerCall list"

text \<open>
  The statements of each \<open>try\<close> block between the \<open>await\<close> and the cache write, on the
  value the provider resolved to. \<open>getStockInfo\<close> builds an object literal from six of its
  properties.
\<close>

definition toStockInfo :: "jsval \<Rightarrow> js_error + jsval" where
  "toStockInfo stockData =
    pick stockData
      [(''symbol'', ''symbol''), (''name'', ''name''), (''currentPrice'', ''currentPrice''),
       (''change'', ''change''), (''volume'', ''volume''), (''marketCap'', ''marketCap'')]"

text \<open>
  \<open>getPredictions\<close> reads \<open>modelResult.historical.slice(-4).map(h => h.close)\<close> and
  \<open>modelResult.predictions.map(p => p.predictedPrice)\<close>, builds the seven chart labels
  from one reading of the clock, and assembles the result with the trend label and
  \<open>Math.floor(modelResult.confidence * 100)\<close>.
\<close>

definition toPredictionData :: "world \<Rightarrow> jsval \<Rightarrow> js_error + jsval" where
  "toPredictionData w modelResult =
    (case getProp modelResult ''historical'' of
       Inl e \<Rightarrow> Inl e
     | Inr bars \<Rightarrow>
    (case sliceMinus4 bars of
       Inl e \<Rightarrow> Inl e
     | Inr lastBars \<Rightarrow>
    (case arrayMap lastBars (\<lambda>h. getProp h ''close'') of
       Inl e \<Rightarrow> Inl e
     | Inr closes \<Rightarrow>
    (case arrayMap (propOf modelResult ''predictions'') (\<lambda>p. getProp p ''predictedPrice'') of
       Inl e \<Rightarrow> Inl e
     | Inr prices \<Rightarrow>
         (let dates =
                map (\<lambda>i. Str (localeDateString w (setDate (timeZone w) (today w) (- i))))
                  [3, 2, 1, 0]
                @ map (\<lambda>i. Str (localeDateString w (setDate (timeZone w) (today w) i)))
                    [1, 2, 3];
              label = propOf modelResult ''trend''
          in Inr (Object
               [(''historical'', closes),
                (''predictions'', prices),
                (''dates'', Array dates),
                (''trend'',
                   Str (if label = Str ''bullish'' then ''Bullish''
                        else if label = Str ''bearish'' then ''Bearish''
                        else ''Sideways'')),
                (''confidence'',
                   Number (numFloor
                     (numMul (toNumber w (propOf modelResult ''confidence''))
                        (Finite 100))))]))))))"

text \<open>\<open>getNews\<close> maps each article to an object literal of seven of its properties,
  \<open>sentimentScore\<close> being read from \<open>finbertScore\<close>.\<close>

definition toNewsItems :: "jsval \<Rightarrow> js_error + jsval" where
  "toNewsItems newsData =
    arrayMap newsData
      (\<lambda>article.
         pick article
           [(''id'', ''id''), (''headline'', ''headline''), (''summary'', ''summary''),
            (''sentiment'', ''sentiment''), (''sentimentScore'', ''finbertScore''),
            (''source'', ''source''), (''publishedAt'', ''publishedAt'')])"

text \<open>
  The three operations. Each checks the cache; after a miss its \<open>try\<close> block awaits the
  provider, transforms what it resolved to, writes the result to the cache and returns
  it; if anything in the block throws, the \<open>catch\<close> block returns the operation's own
  fallback value and the cache is not written.
\<close>

definition getStockInfo :: "string \<Rightarrow> world \<Rightarrow> cache \<Rightarrow> outcome" where
  "getStockInfo ticker w c =
    (let cacheKey = ''stock_'' @ ticker
     in case cacheGet c cacheKey (nowCheck w) of
          Some d \<Rightarrow> \<lparr>settled = Inr d, cacheAfter = c, providerCalls = []\<rparr>
        | None \<Rightarrow>
            (let attempt =
               (case getStockData ticker w of
                  Inl e \<Rightarrow> Inl e
                | Inr stockData \<Rightarrow> toStockInfo stockData)
             in case attempt of
                  Inr stockInfo \<Rightarrow>
                    \<lparr>settled = Inr stockInfo,
                     cacheAfter = cacheSet c cacheKey stockInfo (nowStore w),
                     providerCalls = [GetStockData ticker]\<rparr>
                | Inl error \<Rightarrow>
                    \<lparr>settled = Inr (ofStockInfo (getFallbackStockInfo ticker (randomFallback w))),
                     cacheAfter = c,
                     providerCalls = [GetStockData ticker]\<rparr>))"

definition getPredictions :: "string \<Rightarrow> world \<Rightarrow> cache \<Rightarrow> outcome" where
  "getPredictions ticker w c =
    (let cacheKey = ''predictions_'' @ ticker
     in case cacheGet c cacheKey (nowCheck w) of
          Some d \<Rightarrow> \<lparr>settled = Inr d, cacheAfter = c, providerCalls = []\<rparr>
        | None \<Rightarrow>
            (let attempt =
               (case generatePredictions ticker w of
                  Inl e \<Rightarrow> Inl e
                | Inr modelResult \<Rightarrow> toPredictionData w modelResult)
             in case attempt of
                  Inr predictionData \<Rightarrow>
                    \<lparr>settled = Inr predictionData,
                     cacheAfter = cacheSet c cacheKey predictionData (nowStore w),
                     providerCalls = [GeneratePredictions ticker]\<rparr>
                | Inl error \<Rightarrow>
                    \<lparr>settled = Inr (ofPredictionData w
                                (getFallbackPredictions ticker (timeZone w) (clockFallback w)
                                   (randomFallback w))),
                     cacheAfter = c,
                     providerCalls = [GeneratePredictions ticker]\<rparr>))"

definition getNews :: "string \<Rightarrow> world \<Rightarrow> cache \<Rightarrow> outcome" where
  "getNews ticker w c =
    (let cacheKey = ''news_'' @ ticker
     in case cacheGet c cacheKey (nowCheck w) of
          Some d \<Rightarrow> \<lparr>settled = Inr d, cacheAfter = c, providerCalls = []\<rparr>
        | None \<Rightarrow>
            (let attempt =
               (case getNewsWithSentiment ticker w of
                  Inl e \<Rightarrow> Inl e
                | Inr newsData \<Rightarrow> toNewsItems newsData)
             in case attempt of
                  Inr newsItems \<Rightarrow>
                    \<lparr>settled = Inr newsItems,
                     cacheAfter = cacheSet c cacheKey newsItems (nowStore w),
                     providerCalls = [GetNewsWithSentiment ticker]\<rparr>
                | Inl error \<Rightarrow>
                    \<lparr>settled = Inr (Array (map (ofNewsItem w)
                                (getFallbackNews ticker (clockFallback w)))),
                     cacheAfter = c,
                     providerCalls = [GetNewsWithSentiment ticker]\<rparr>))"

section \<open>Vocabulary of the properties\<close>

text \<open>\<open>Math.random()\<close> returns a number in \<open>[0, 1)\<close>.\<close>

definition unitDraws :: "(nat \<Rightarrow> real) \<Rightarrow> bool" where
  "unitDraws rnd = (\<forall>k. 0 \<le> rnd k \<and> rnd k < 1)"


definition bracketed :: "LSTMPrediction \<Rightarrow> bool" where
  "bracketed p = (upperBound p \<ge> predictedPrice p \<and> predictedPrice p \<ge> lowerBound p)"


definition mockPoint ::
  "int \<Rightarrow> zone \<Rightarrow> (nat \<Rightarrow> int) \<Rightarrow> (nat \<Rightarrow> real) \<Rightarrow> nat \<Rightarrow> nat \<Rightarrow> real \<Rightarrow> LSTMPrediction" where
  "mockPoint i z clock rnd m n price =
    (let p = price + (rnd n - 0.5) * 10
     in \<lparr>LSTMPrediction.date = isoDate (setDate z (clock m) i), predictedPrice = p,
         confidence = rnd (n + 1) * 0.3 + 0.7, upperBound = p * 1.05,
         lowerBound = p * 0.95\<rparr>)"


text \<open>
  Time zones. A zone with one offset throughout; and the condition that the offsets of a
  zone stay within a band of the given width (every zone with daylight saving has a band of
  an hour or two).
\<close>

definition fixedZone :: "int \<Rightarrow> zone" where
  "fixedZone off = \<lparr>offsetAtInstant = (\<lambda>t. off), offsetAtLocal = (\<lambda>t. off)\<rparr>"



text \<open>The three public operations under one name, with the cache key each one uses.\<close>

datatype operation = GetStockInfo | GetPredictions | GetNews

fun call :: "operation \<Rightarrow> string \<Rightarrow> world \<Rightarrow> cache \<Rightarrow> outcome" where
  "call GetStockInfo ticker w c = getStockInfo ticker w c"
| "call GetPredictions ticker w c = getPredictions ticker w c"
| "call GetNews ticker w c = getNews ticker w c"

fun cacheKeyOf :: "operation \<Rightarrow> string \<Rightarrow> string" where
  "cacheKeyOf GetStockInfo ticker = ''stock_'' @ ticker"
| "cacheKeyOf GetPredictions ticker = ''predictions_'' @ ticker"
| "cacheKeyOf GetNews ticker = ''news_'' @ ticker"























text \<open>What the provider method an operation awaits resolves to.\<close>

fun provided :: "operation \<Rightarrow> string \<Rightarrow> world \<Rightarrow> js_error + jsval" where
  "provided GetStockInfo ticker w = getStockData ticker w"
| "provided GetPredictions ticker w = generatePredictions ticker w"
| "provided GetNews ticker w = getNewsWithSentiment ticker w"

text \<open>The steps of an operation after a cache miss, by operation: the provider method it
  calls, what its \<open>try\<close> block makes of the value awaited, and what its \<open>catch\<close> block
  returns.\<close>

fun providerCallOf :: "operation \<Rightarrow> string \<Rightarrow> providerCall" where
  "providerCallOf GetStockInfo ticker = GetStockData ticker"
| "providerCallOf GetPredictions ticker = GeneratePredictions ticker"
| "providerCallOf GetNews ticker = GetNewsWithSentiment ticker"

fun transform :: "operation \<Rightarrow> world \<Rightarrow> jsval \<Rightarrow> js_error + jsval" where
  "transform GetStockInfo w v = toStockInfo v"
| "transform GetPredictions w v = toPredictionData w v"
| "transform GetNews w v = toNewsItems v"

fun fallback :: "operation \<Rightarrow> string \<Rightarrow> world \<Rightarrow> jsval" where
  "fallback GetStockInfo ticker w =
     ofStockInfo (getFallbackStockInfo ticker (randomFallback w))"
| "fallback GetPredictions ticker w =
     ofPredictionData w
       (getFallbackPredictions ticker (timeZone w) (clockFallback w) (randomFallback w))"
| "fallback GetNews ticker w =
     Array (map (ofNewsItem w) (getFallbackNews ticker (clockFallback w)))"


text \<open>
  The transformations read on values of the declared interfaces: the \<open>StockInfo\<close> of a
  \<open>StockData\<close>, the \<open>NewsItem\<close> of a \<open>NewsData\<close>, and the \<open>PredictionData\<close> of a
  \<open>ModelPredictionResult\<close>.
\<close>

definition stockInfoOf :: "StockData \<Rightarrow> StockInfo" where
  "stockInfoOf d =
    \<lparr>StockInfo.symbol = StockData.symbol d, name = StockData.name d,
     currentPrice = StockData.currentPrice d, change = StockData.change d,
     volume = StockData.volume d, marketCap = StockData.marketCap d\<rparr>"

definition newsItemOf :: "NewsData \<Rightarrow> NewsItem" where
  "newsItemOf a =
    \<lparr>NewsItem.id' = NewsData.id' a, headline = NewsData.headline a,
     summary = NewsData.summary a, sentiment = NewsData.sentiment a,
     sentimentScore = finbertScore a, source = NewsData.source a,
     publishedAt = NewsData.publishedAt a\<rparr>"

definition predictionDataOf :: "world \<Rightarrow> ModelPredictionResult \<Rightarrow> PredictionData" where
  "predictionDataOf w r =
    \<lparr>PredictionData.historical = map close (sliceLast 4 (ModelPredictionResult.historical r)),
     predictions = map predictedPrice (ModelPredictionResult.predictions r),
     dates = map (\<lambda>i. setDate (timeZone w) (today w) (- i)) [3, 2, 1, 0]
             @ map (\<lambda>i. setDate (timeZone w) (today w) i) [1, 2, 3],
     trend = (case ModelPredictionResult.trend r of
                Bullish \<Rightarrow> ''Bullish'' | Bearish \<Rightarrow> ''Bearish'' | Sideways \<Rightarrow> ''Sideways''),
     confidence = of_int \<lfloor>ModelPredictionResult.confidence r * 100\<rfloor>\<rparr>"

text \<open>What an operation makes of the provider's synthetic data.\<close>

fun synthetic :: "operation \<Rightarrow> string \<Rightarrow> world \<Rightarrow> jsval" where
  "synthetic GetStockInfo ticker w =
     ofStockInfo (stockInfoOf (getMockStockData ticker (randomStock w)))"
| "synthetic GetPredictions ticker w =
     ofPredictionData w
       (predictionDataOf w
          (getMockPredictionResult ticker (timeZone w) (clockPrediction w)
             (randomPrediction w)))"
| "synthetic GetNews ticker w =
     Array (map (\<lambda>a. ofNewsItem w (newsItemOf a)) (getMockNewsData ticker (clockNews w)))"

text \<open>
  Concrete environments: a host that prints an instant or a day as its decimal numeral
  and whose coercions yield \<open>NaN\<close>; one environment in which every request fails at the
  transport, and one, a minute later, in which the backend answers every request with a
  body of the declared shape.
\<close>

definition offlineWorld :: world where
  "offlineWorld =
    \<lparr>fetchStock = Inl TypeError, fetchHistorical = Inl TypeError, fetchNews = Inl TypeError,
     fetchPredict = Inl TypeError,
     randomStock = (\<lambda>k. 1 / 2), randomHistorical = (\<lambda>k. 1 / 2),
     randomPrediction = (\<lambda>k. 1 / 2), randomFallback = (\<lambda>k. 1 / 4),
     clockHistorical = (\<lambda>k. 1762000000000), clockNews = (\<lambda>k. 1762000000000),
     clockPrediction = (\<lambda>k. 1762000000000), clockFallback = (\<lambda>k. 1762000000000),
     nowUpdated = 1762000000000, nowCheck = 1762000000000, nowStore = 1762000000000,
     today = 1762000000000,
     timeZone = fixedZone 0, isoString = numberToString, isoDateString = numberToString,
     localeDateString = numberToString,
     hostToNumber = (\<lambda>v. NaN), hostAdd = (\<lambda>a b. Number NaN),
     hostDivide = (\<lambda>a b. Number NaN)\<rparr>"







section \<open>Theorems\<close>

subsection \<open>Configuration validation\<close>

lemma push_if_append:
  "push_if b msg errors = errors @ (if b then [msg] else [])"
  by (simp add: push_if_def)

lemma validateModelConfig_unfold:
  "validateModelConfig config =
     (if numLess (sequenceLength (ModelConfig.lstm config)) (Finite 1)
        then [''LSTM sequence length must be at least 1''] else [])
   @ (if numLess (hiddenUnits (ModelConfig.lstm config)) (Finite 1)
        then [''LSTM hidden units must be at least 1''] else [])
   @ (if numLess (layers (ModelConfig.lstm config)) (Finite 1)
        then [''LSTM layers must be at least 1''] else [])
   @ (if numLess (dropout (ModelConfig.lstm config)) (Finite 0)
          \<or> numGeq (dropout (ModelConfig.lstm config)) (Finite 1)
        then [''LSTM dropout must be between 0 and 1''] else [])
   @ (if numLess (epochs (ModelConfig.training config)) (Finite 1)
        then [''Training epochs must be at least 1''] else [])
   @ (if numLess (batchSize (ModelConfig.training config)) (Finite 1)
        then [''Training batch size must be at least 1''] else [])
   @ (if numLeq (learningRate (ModelConfig.training config)) (Finite 0)
        then [''Learning rate must be positive''] else [])
   @ (if numLess (validationSplit (ModelConfig.training config)) (Finite 0)
          \<or> numGeq (validationSplit (ModelConfig.training config)) (Finite 1)
        then [''Validation split must be between 0 and 1''] else [])
   @ (if length (features (ModelConfig.data config)) = 0
        then [''At least one feature must be specified''] else [])
   @ (if numLess (testSize (ModelConfig.data config)) (Finite 0)
          \<or> numGeq (testSize (ModelConfig.data config)) (Finite 1)
        then [''Test size must be between 0 and 1''] else [])
   @ (if numLess (predictionDays (ModelConfig.data config)) (Finite 1)
        then [''Prediction days must be at least 1''] else [])"
  unfolding validateModelConfig_def Let_def push_if_append by simp

lemma violation_cons:
  "map snd (filter (\<lambda>row. \<not> fst row) ((b, m) # rows)) =
     (if \<not> b then [m] else []) @ map snd (filter (\<lambda>row. \<not> fst row) rows)"
  by simp

lemma if_single_nil: "((if b then [m] else []) = []) = (\<not> b)"
  by simp

lemma in_if_single: "(x \<in> set (if b then [m] else [])) = (b \<and> x = m)"
  by auto

text \<open>On numbers other than \<open>NaN\<close> each comparison of the code is the negation of the
  constraint; on \<open>NaN\<close> both are false.\<close>

lemma numGeq_iff: "x \<noteq> NaN \<Longrightarrow> numGeq x (Finite c) = (\<not> numLess x (Finite c))"
  by (simp add: numGeq_def)

lemma numLeq_iff: "x \<noteq> NaN \<Longrightarrow> numLeq x (Finite c) = (\<not> numLess (Finite c) x)"
  by (simp add: numLeq_def)

lemma validateModelConfig_exact:
  assumes "nanFree config"
  shows "validateModelConfig config = violationMessages config"
  using assms
  unfolding validateModelConfig_unfold violationMessages_def rangeConstraints_def violation_cons
    nanFree_def
  by (simp add: numGeq_iff numLeq_iff del: append_assoc split del: if_split)

lemma validateModelConfig_empty:
  assumes "nanFree config"
  shows "validateModelConfig config = [] \<longleftrightarrow> allConstraintsHold config"
  using assms
  unfolding validateModelConfig_unfold allConstraintsHold_def rangeConstraints_def nanFree_def
  by (simp add: if_single_nil numGeq_iff numLeq_iff split del: if_split)

lemma validateModelConfig_sound:
  "set (validateModelConfig config) \<subseteq> set (violationMessages config)"
proof
  fix m
  assume "m \<in> set (validateModelConfig config)"
  then show "m \<in> set (violationMessages config)"
    unfolding validateModelConfig_unfold violationMessages_def rangeConstraints_def
      violation_cons set_append Un_iff in_if_single
    by (auto simp: numGeq_def numLeq_def)
qed

lemma allConstraintsHold_no_violation:
  "allConstraintsHold config \<Longrightarrow> violationMessages config = []"
  unfolding allConstraintsHold_def violationMessages_def
  by (induction "rangeConstraints config") (auto simp: list_all_iff filter_empty_conv)

text \<open>
  Claim C8, as the code has it. \<open>validateModelConfig\<close> is a total function from
  configurations to lists of messages (it has no error result). For a configuration none
  of whose checked numbers is \<open>NaN\<close> it returns the messages of the violated range
  constraints, one per violated constraint and in the order of the checks, and it returns
  the empty list exactly when all eleven constraints hold. For every configuration,
  whatever its numbers, each message returned is the message of a violated constraint,
  and nothing is returned when all constraints hold.
\<close>

theorem validateModelConfig_violations:
  "(nanFree config \<longrightarrow>
      validateModelConfig config = violationMessages config
      \<and> (validateModelConfig config = [] \<longleftrightarrow> allConstraintsHold config))
   \<and> set (validateModelConfig config) \<subseteq> set (violationMessages config)
   \<and> (allConstraintsHold config \<longrightarrow> validateModelConfig config = [])"
proof (intro conjI impI)
  assume "nanFree config"
  then show "validateModelConfig config = violationMessages config"
    by (rule validateModelConfig_exact)
next
  assume "nanFree config"
  then show "validateModelConfig config = [] \<longleftrightarrow> allConstraintsHold config"
    by (rule validateModelConfig_empty)
next
  show "set (validateModelConfig config) \<subseteq> set (violationMessages config)"
    by (rule validateModelConfig_sound)
next
  assume "allConstraintsHold config"
  then have "violationMessages config = []"
    by (rule allConstraintsHold_no_violation)
  with validateModelConfig_sound [of config] show "validateModelConfig config = []"
    by simp
qed

text \<open>The documented defaults pass; without features and with 0 prediction days, the two
  messages come in the order of the checks.\<close>

theorem validateModelConfig_witness:
  "nanFree defaultValues
   \<and> validateModelConfig defaultValues = []
   \<and> allConstraintsHold defaultValues
   \<and> nanFree (defaultValues\<lparr>ModelConfig.data := (ModelConfig.data defaultValues)
                                  \<lparr>features := [], predictionDays := Finite 0\<rparr>\<rparr>)
   \<and> validateModelConfig
        (defaultValues\<lparr>ModelConfig.data := (ModelConfig.data defaultValues)
                                  \<lparr>features := [], predictionDays := Finite 0\<rparr>\<rparr>)
       = [''At least one feature must be specified'', ''Prediction days must be at least 1'']"
  using validateModelConfig_violations [of defaultValues]
    validateModelConfig_violations
      [of "defaultValues\<lparr>ModelConfig.data := (ModelConfig.data defaultValues)
                                  \<lparr>features := [], predictionDays := Finite 0\<rparr>\<rparr>"]
  by (simp add: violationMessages_def allConstraintsHold_def rangeConstraints_def
      defaultValues_def nanFree_def numGeq_def numLess_def)

text \<open>
  The claim as the specification words it fails on \<open>NaN\<close>, which is a \<open>number\<close>: every
  comparison with \<open>NaN\<close> is false, so no check of the code fires on it. For the documented
  defaults with \<open>lstm.sequenceLength = NaN\<close> the constraint \<open>sequenceLength \<ge> 1\<close> does not
  hold, its message is due, and \<open>validateModelConfig\<close> returns the empty list.
\<close>

theorem validateModelConfig_nan_counterexample:
  "validateModelConfig
     (defaultValues\<lparr>ModelConfig.lstm := (ModelConfig.lstm defaultValues)
                                  \<lparr>sequenceLength := NaN\<rparr>\<rparr>) = []
   \<and> \<not> allConstraintsHold
        (defaultValues\<lparr>ModelConfig.lstm := (ModelConfig.lstm defaultValues)
                                  \<lparr>sequenceLength := NaN\<rparr>\<rparr>)
   \<and> violationMessages
        (defaultValues\<lparr>ModelConfig.lstm := (ModelConfig.lstm defaultValues)
                                  \<lparr>sequenceLength := NaN\<rparr>\<rparr>)
       = [''LSTM sequence length must be at least 1'']"
  by (simp add: validateModelConfig_unfold violationMessages_def allConstraintsHold_def
      rangeConstraints_def defaultValues_def numGeq_def numLess_def numLeq_def)

subsection \<open>Aliasing in \<open>getModelConfig\<close>\<close>

text \<open>
  Claim C9. \<open>getModelConfig\<close> copies \<open>defaultModelConfig\<close> shallowly: the object it returns
  holds the very references \<open>defaultModelConfig\<close> holds, in every environment and store.
  So the assignments of the \<open>development\<close> and \<open>testing\<close> branches change
  \<open>defaultModelConfig\<close> itself: in the store left by \<open>getModelConfig('testing')\<close>,
  \<open>defaultModelConfig.training.epochs\<close> is 5 (it was 100 when the module was loaded; after
  \<open>getModelConfig('development')\<close> it is 10), and a following \<open>getModelConfig('production')\<close>
  returns a configuration with 5 epochs, whereas on the freshly loaded module it returns
  the documented 100.
\<close>

theorem getModelConfig_aliases_default:
  "fst (getModelConfig env h) = defaultModelConfig
   \<and> defaultTrainingEpochs initialStore = Some (Finite 100)
   \<and> defaultTrainingEpochs (snd (getModelConfig Testing initialStore)) = Some (Finite 5)
   \<and> defaultTrainingEpochs (snd (getModelConfig Development initialStore)) = Some (Finite 10)
   \<and> (case getModelConfig Testing initialStore of
         (c1, h1) \<Rightarrow>
           (case getModelConfig Production h1 of
              (c2, h2) \<Rightarrow>
                map_option (\<lambda>c. epochs (ModelConfig.training c)) (readConfig h2 c2)))
       = Some (Finite 5)
   \<and> (case getModelConfig Production initialStore of
         (c, h) \<Rightarrow> map_option (\<lambda>c. epochs (ModelConfig.training c)) (readConfig h c))
       = Some (Finite 100)"
proof (intro conjI)
  show "fst (getModelConfig env h) = defaultModelConfig"
    by (cases env) (simp_all add: getModelConfig_def defaultModelConfig_def Let_def)
  show "defaultTrainingEpochs initialStore = Some (Finite 100)"
    by (simp add: defaultTrainingEpochs_def initialStore_def defaultModelConfig_def
        defaultValues_def)
  show "defaultTrainingEpochs (snd (getModelConfig Testing initialStore)) = Some (Finite 5)"
    by (simp add: defaultTrainingEpochs_def initialStore_def defaultModelConfig_def
        defaultValues_def getModelConfig_def Let_def assignTrainingEpochs_def
        assignLstmSequenceLength_def assignNewsMaxArticles_def assignApiCacheTimeout_def)
  show "defaultTrainingEpochs (snd (getModelConfig Development initialStore)) = Some (Finite 10)"
    by (simp add: defaultTrainingEpochs_def initialStore_def defaultModelConfig_def
        defaultValues_def getModelConfig_def Let_def assignTrainingEpochs_def
        assignLstmSequenceLength_def assignNewsMaxArticles_def)
  show "(case getModelConfig Testing initialStore of
         (c1, h1) \<Rightarrow>
           (case getModelConfig Production h1 of
              (c2, h2) \<Rightarrow>
                map_option (\<lambda>c. epochs (ModelConfig.training c)) (readConfig h2 c2)))
       = Some (Finite 5)"
    by (simp add: readConfig_def initialStore_def defaultModelConfig_def defaultValues_def
        getModelConfig_def
        Let_def assignTrainingEpochs_def assignLstmSequenceLength_def assignNewsMaxArticles_def
        assignApiCacheTimeout_def)
  show "(case getModelConfig Production initialStore of
         (c, h) \<Rightarrow> map_option (\<lambda>c. epochs (ModelConfig.training c)) (readConfig h c))
       = Some (Finite 100)"
    by (simp add: readConfig_def initialStore_def defaultModelConfig_def defaultValues_def
        getModelConfig_def
        Let_def)
qed

subsection \<open>Sentiment weighting\<close>

lemma foldl_countNews:
  "foldl countNews acc xs =
     \<lparr>sentimentCounters.positiveCount =
        sentimentCounters.positiveCount acc
        + length (filter (\<lambda>a. NewsData.sentiment a = Positive) xs),
      sentimentCounters.negativeCount =
        sentimentCounters.negativeCount acc
        + length (filter (\<lambda>a. NewsData.sentiment a = Negative) xs),
      sentimentCounters.neutralCount =
        sentimentCounters.neutralCount acc
        + length (filter (\<lambda>a. NewsData.sentiment a = Neutral) xs),
      sentimentCounters.totalSentimentScore =
        sentimentCounters.totalSentimentScore acc + sum_list (map finbertScore xs)\<rparr>"
  by (induction xs arbitrary: acc) (auto simp: countNews_def split: sentiment.splits)

lemma label_counts_total:
  "length (filter (\<lambda>a. NewsData.sentiment a = Positive) xs)
   + length (filter (\<lambda>a. NewsData.sentiment a = Negative) xs)
   + length (filter (\<lambda>a. NewsData.sentiment a = Neutral) xs) = length xs"
proof (induction xs)
  case Nil
  then show ?case by simp
next
  case (Cons a xs)
  then show ?case by (cases "NewsData.sentiment a") simp_all
qed

text \<open>
  Claim C2. On the empty article list \<open>calculateSentimentWeights\<close> returns exactly
  \<open>{positive: 0.33, negative: 0.33, neutral: 0.34, overallSentiment: 0}\<close>. On a non-empty
  list, the weight of each label is the number of articles with that label divided by the
  number of articles, \<open>overallSentiment\<close> is the arithmetic mean of the \<open>finbertScore\<close>
  values (\<open>sentimentScore\<close> plays no part), and the three weights add up to 1 (exactly,
  numbers being reals here).
\<close>

theorem calculateSentimentWeights_spec:
  "calculateSentimentWeights [] =
     \<lparr>positive = 0.33, negative = 0.33, neutral = 0.34, overallSentiment = 0\<rparr>
   \<and> (newsData \<noteq> [] \<longrightarrow>
        positive (calculateSentimentWeights newsData)
          = real (length (filter (\<lambda>a. NewsData.sentiment a = Positive) newsData))
            / real (length newsData)
      \<and> negative (calculateSentimentWeights newsData)
          = real (length (filter (\<lambda>a. NewsData.sentiment a = Negative) newsData))
            / real (length newsData)
      \<and> neutral (calculateSentimentWeights newsData)
          = real (length (filter (\<lambda>a. NewsData.sentiment a = Neutral) newsData))
            / real (length newsData)
      \<and> overallSentiment (calculateSentimentWeights newsData)
          = sum_list (map finbertScore newsData) / real (length newsData)
      \<and> positive (calculateSentimentWeights newsData)
          + negative (calculateSentimentWeights newsData)
          + neutral (calculateSentimentWeights newsData) = 1)"
proof (intro conjI impI)
  show "calculateSentimentWeights [] =
     \<lparr>positive = 0.33, negative = 0.33, neutral = 0.34, overallSentiment = 0\<rparr>"
    by (simp add: calculateSentimentWeights_def)
next
  assume ne: "newsData \<noteq> []"
  then have w: "calculateSentimentWeights newsData =
     \<lparr>positive = real (length (filter (\<lambda>a. NewsData.sentiment a = Positive) newsData))
                  / real (length newsData),
      negative = real (length (filter (\<lambda>a. NewsData.sentiment a = Negative) newsData))
                  / real (length newsData),
      neutral = real (length (filter (\<lambda>a. NewsData.sentiment a = Neutral) newsData))
                  / real (length newsData),
      overallSentiment = sum_list (map finbertScore newsData) / real (length newsData)\<rparr>"
    by (simp add: calculateSentimentWeights_def foldl_countNews Let_def)
  show "positive (calculateSentimentWeights newsData)
          = real (length (filter (\<lambda>a. NewsData.sentiment a = Positive) newsData))
            / real (length newsData)"
    by (simp add: w)
  show "negative (calculateSentimentWeights newsData)
          = real (length (filter (\<lambda>a. NewsData.sentiment a = Negative) newsData))
            / real (length newsData)"
    by (simp add: w)
  show "neutral (calculateSentimentWeights newsData)
          = real (length (filter (\<lambda>a. NewsData.sentiment a = Neutral) newsData))
            / real (length newsData)"
    by (simp add: w)
  show "overallSentiment (calculateSentimentWeights newsData)
          = sum_list (map finbertScore newsData) / real (length newsData)"
    by (simp add: w)
  have "real (length (filter (\<lambda>a. NewsData.sentiment a = Positive) newsData))
      + real (length (filter (\<lambda>a. NewsData.sentiment a = Negative) newsData))
      + real (length (filter (\<lambda>a. NewsData.sentiment a = Neutral) newsData))
      = real (length newsData)"
    using label_counts_total [of newsData] by linarith
  moreover have "real (length newsData) \<noteq> 0"
    using ne by simp
  ultimately show "positive (calculateSentimentWeights newsData)
          + negative (calculateSentimentWeights newsData)
          + neutral (calculateSentimentWeights newsData) = 1"
    by (simp add: w add_divide_distrib [symmetric])
qed

text \<open>The provider's three synthetic articles: one per label, mean FinBERT score 0.14.\<close>

theorem calculateSentimentWeights_witness:
  "getMockNewsData ''TSLA'' (\<lambda>k. 0) \<noteq> []
   \<and> positive (calculateSentimentWeights (getMockNewsData ''TSLA'' (\<lambda>k. 0))) = 1 / 3
   \<and> negative (calculateSentimentWeights (getMockNewsData ''TSLA'' (\<lambda>k. 0))) = 1 / 3
   \<and> neutral (calculateSentimentWeights (getMockNewsData ''TSLA'' (\<lambda>k. 0))) = 1 / 3
   \<and> overallSentiment (calculateSentimentWeights (getMockNewsData ''TSLA'' (\<lambda>k. 0))) = 0.14"
  using calculateSentimentWeights_spec [of "getMockNewsData ''TSLA'' (\<lambda>k. 0)"]
  by (simp add: getMockNewsData_def)

text \<open>
  \<open>calculateSentimentWeights\<close> above is the function on values of its declared parameter
  type \<open>NewsData[]\<close>; on the encoding of such a list the function as it runs,
  \<open>calculateSentimentWeightsRaw\<close>, returns the encoding of its result.
\<close>

lemma countNewsRaw_typed:
  "countNewsRaw w
     \<lparr>rawCounters.positiveCount = sentimentCounters.positiveCount acc,
      rawCounters.negativeCount = sentimentCounters.negativeCount acc,
      rawCounters.neutralCount = sentimentCounters.neutralCount acc,
      rawCounters.totalSentimentScore = num (sentimentCounters.totalSentimentScore acc)\<rparr>
     (ofNewsData w a) =
   Inr \<lparr>rawCounters.positiveCount = sentimentCounters.positiveCount (countNews acc a),
        rawCounters.negativeCount = sentimentCounters.negativeCount (countNews acc a),
        rawCounters.neutralCount = sentimentCounters.neutralCount (countNews acc a),
        rawCounters.totalSentimentScore =
          num (sentimentCounters.totalSentimentScore (countNews acc a))\<rparr>"
  by (cases "NewsData.sentiment a")
    (simp_all add: countNewsRaw_def countNews_def ofNewsData_def getProp_def propOf_def
      nullish_def sentimentLabel_def jsAdd_def num_def numAdd_def Let_def)

lemma foldM_countNewsRaw_typed:
  "foldM (countNewsRaw w)
     \<lparr>rawCounters.positiveCount = sentimentCounters.positiveCount acc,
      rawCounters.negativeCount = sentimentCounters.negativeCount acc,
      rawCounters.neutralCount = sentimentCounters.neutralCount acc,
      rawCounters.totalSentimentScore = num (sentimentCounters.totalSentimentScore acc)\<rparr>
     (map (ofNewsData w) xs) =
   Inr \<lparr>rawCounters.positiveCount = sentimentCounters.positiveCount (foldl countNews acc xs),
        rawCounters.negativeCount = sentimentCounters.negativeCount (foldl countNews acc xs),
        rawCounters.neutralCount = sentimentCounters.neutralCount (foldl countNews acc xs),
        rawCounters.totalSentimentScore =
          num (sentimentCounters.totalSentimentScore (foldl countNews acc xs))\<rparr>"
proof (induction xs arbitrary: acc)
  case Nil
  then show ?case by simp
next
  case (Cons a xs)
  show ?case
    by (simp add: countNewsRaw_typed Cons.IH)
qed

lemma calculateSentimentWeightsRaw_typed:
  "calculateSentimentWeightsRaw w (Array (map (ofNewsData w) xs))
     = Inr (ofSentimentWeights (calculateSentimentWeights xs))"
proof (cases xs)
  case Nil
  then show ?thesis
    by (simp add: calculateSentimentWeightsRaw_def calculateSentimentWeights_def getProp_def
        propOf_def nullish_def)
next
  case (Cons a ys)
  have run: "foldM (countNewsRaw w)
     \<lparr>rawCounters.positiveCount = 0, rawCounters.negativeCount = 0,
      rawCounters.neutralCount = 0, rawCounters.totalSentimentScore = Number (Finite 0)\<rparr>
     (map (ofNewsData w) xs) =
   Inr \<lparr>rawCounters.positiveCount =
          sentimentCounters.positiveCount
            (foldl countNews
               \<lparr>sentimentCounters.positiveCount = 0, sentimentCounters.negativeCount = 0,
                sentimentCounters.neutralCount = 0,
                sentimentCounters.totalSentimentScore = 0\<rparr> xs),
        rawCounters.negativeCount =
          sentimentCounters.negativeCount
            (foldl countNews
               \<lparr>sentimentCounters.positiveCount = 0, sentimentCounters.negativeCount = 0,
                sentimentCounters.neutralCount = 0,
                sentimentCounters.totalSentimentScore = 0\<rparr> xs),
        rawCounters.neutralCount =
          sentimentCounters.neutralCount
            (foldl countNews
               \<lparr>sentimentCounters.positiveCount = 0, sentimentCounters.negativeCount = 0,
                sentimentCounters.neutralCount = 0,
                sentimentCounters.totalSentimentScore = 0\<rparr> xs),
        rawCounters.totalSentimentScore =
          num (sentimentCounters.totalSentimentScore
            (foldl countNews
               \<lparr>sentimentCounters.positiveCount = 0, sentimentCounters.negativeCount = 0,
                sentimentCounters.neutralCount = 0,
                sentimentCounters.totalSentimentScore = 0\<rparr> xs))\<rparr>"
    using foldM_countNewsRaw_typed
      [of w "\<lparr>sentimentCounters.positiveCount = 0, sentimentCounters.negativeCount = 0,
                sentimentCounters.neutralCount = 0,
                sentimentCounters.totalSentimentScore = 0\<rparr>" xs]
    by (simp add: num_def)
  have ne: "xs \<noteq> []" "real (length xs) \<noteq> 0"
    using Cons by simp_all
  show ?thesis
    using ne
    by (simp add: calculateSentimentWeightsRaw_def run calculateSentimentWeights_def getProp_def
        propOf_def nullish_def Let_def ofSentimentWeights_def jsDivide_def num_def numDiv_def)
qed

subsection \<open>The cache\<close>

lemma map_of_mapSet: "map_of (mapSet k v c) = (map_of c)(k \<mapsto> v)"
  by (induction c) (auto simp: fun_eq_iff)

lemma cacheGet_cacheSet:
  "cacheGet (cacheSet c k v t) k now = (if now - t < cacheTimeout then Some v else None)"
  by (simp add: cacheGet_def cacheSet_def map_of_mapSet)

lemma cacheGet_cacheSet_other:
  "k' \<noteq> k \<Longrightarrow> cacheGet (cacheSet c k v t) k' now = cacheGet c k' now"
  by (simp add: cacheGet_def cacheSet_def map_of_mapSet)

lemma clearCache_empties:
  "size' (getCacheStats (clearCache c)) = 0 \<and> cacheGet (clearCache c) k now = None"
  by (simp add: getCacheStats_def clearCache_def cacheGet_def)

text \<open>
  Claim C3. A stored payload is returned only while \<open>now - timestamp < ttl\<close>: a lookup at
  the instant of the \<open>set\<close>, or at any instant less than \<open>ttl\<close> milliseconds after it,
  returns the value just stored; a lookup \<open>ttl\<close> milliseconds or more after the \<open>set\<close> is a
  miss; and whenever a lookup returns a payload, the cache holds an entry for that key with
  that payload whose age is below \<open>ttl\<close>. This holds for every key, payload and prior
  cache.
\<close>

theorem cache_ttl:
  "cacheGet (cacheSet c k v t) k t = Some v
   \<and> (early - t < cacheTimeout \<longrightarrow> cacheGet (cacheSet c k v t) k early = Some v)
   \<and> (late - t \<ge> cacheTimeout \<longrightarrow> cacheGet (cacheSet c k v t) k late = None)
   \<and> (cacheGet c' k now = Some d \<longrightarrow>
        (\<exists>cached. map_of c' k = Some cached \<and> cacheEntry.data cached = d
                 \<and> now - timestamp cached < cacheTimeout))"
proof (intro conjI impI)
  show "cacheGet (cacheSet c k v t) k t = Some v"
    by (simp add: cacheGet_cacheSet cacheTimeout_def)
  show "cacheGet (cacheSet c k v t) k early = Some v" if "early - t < cacheTimeout"
    using that by (simp add: cacheGet_cacheSet)
  show "cacheGet (cacheSet c k v t) k late = None" if "late - t \<ge> cacheTimeout"
    using that by (simp add: cacheGet_cacheSet)
  show "\<exists>cached. map_of c' k = Some cached \<and> cacheEntry.data cached = d
                 \<and> now - timestamp cached < cacheTimeout"
    if "cacheGet c' k now = Some d"
    using that by (auto simp: cacheGet_def split: option.splits if_splits)
qed

text \<open>At the boundary: stored at instant 0, a lookup at 299999 ms hits and a lookup at
  300000 ms (five minutes) misses, while an entry stored at 300000 is returned at 300000.\<close>

theorem cache_ttl_witness:
  "cacheGet (cacheSet [] ''stock_AAPL'' (Array []) 0) ''stock_AAPL'' 0
     = Some (Array [])
   \<and> 299999 - 0 < cacheTimeout
   \<and> cacheGet (cacheSet [] ''stock_AAPL'' (Array []) 0) ''stock_AAPL'' 299999
     = Some (Array [])
   \<and> 300000 - 0 \<ge> cacheTimeout
   \<and> cacheGet (cacheSet [] ''stock_AAPL'' (Array []) 0) ''stock_AAPL'' 300000 = None
   \<and> cacheGet [(''stock_AAPL'', \<lparr>data = Array [], timestamp = 300000\<rparr>)]
        ''stock_AAPL'' 300000 = Some (Array [])
   \<and> (\<exists>cached. map_of [(''stock_AAPL'', \<lparr>data = Array [], timestamp = 300000\<rparr>)]
                  ''stock_AAPL'' = Some cached
         \<and> cacheEntry.data cached = Array []
         \<and> 300000 - timestamp cached < cacheTimeout)"
  using cache_ttl [of "[]" "''stock_AAPL''" "Array []" 0 299999 300000
      "[(''stock_AAPL'', \<lparr>data = Array [], timestamp = 300000\<rparr>)]" 300000
      "Array []"]
  by (simp add: cacheGet_def cacheTimeout_def)


subsection \<open>Synthetic quotes\<close>

text \<open>
  Claim C7. Every synthetic quote, of the provider (\<open>getMockStockData\<close>) and of the
  orchestrator (\<open>getFallbackStockInfo\<close>), has \<open>currentPrice > 0\<close> and \<open>volume \<ge> 0\<close>; its
  symbol is the uppercased ticker and its display name is that symbol followed by
  \<open>Corporation\<close>; and the ticker enters nowhere else: for the same draws, the quotes of two
  tickers differ in symbol and name only.
\<close>

theorem synthetic_quote:
  assumes "unitDraws rnd"
  shows "StockData.currentPrice (getMockStockData ticker rnd) > 0
     \<and> StockData.volume (getMockStockData ticker rnd) \<ge> 0
     \<and> StockData.symbol (getMockStockData ticker rnd) = toUpperCase ticker
     \<and> StockData.name (getMockStockData ticker rnd)
         = StockData.symbol (getMockStockData ticker rnd) @ '' Corporation''
     \<and> getMockStockData ticker rnd =
         (getMockStockData ticker' rnd)
           \<lparr>StockData.symbol := toUpperCase ticker,
            StockData.name := toUpperCase ticker @ '' Corporation''\<rparr>
     \<and> StockInfo.currentPrice (getFallbackStockInfo ticker rnd) > 0
     \<and> StockInfo.volume (getFallbackStockInfo ticker rnd) \<ge> 0
     \<and> StockInfo.symbol (getFallbackStockInfo ticker rnd) = toUpperCase ticker
     \<and> StockInfo.name (getFallbackStockInfo ticker rnd)
         = StockInfo.symbol (getFallbackStockInfo ticker rnd) @ '' Corporation''
     \<and> getFallbackStockInfo ticker rnd =
         (getFallbackStockInfo ticker' rnd)
           \<lparr>StockInfo.symbol := toUpperCase ticker,
            StockInfo.name := toUpperCase ticker @ '' Corporation''\<rparr>"
proof -
  have r0: "0 \<le> rnd 0" and r2: "0 \<le> rnd 2"
    using assms by (simp_all add: unitDraws_def)
  have p: "0 < rnd 0 * 200 + 50"
    using r0 by (simp add: add_nonneg_pos)
  have v: "(0::real) \<le> of_int \<lfloor>rnd 2 * 100000000\<rfloor>"
    using r2 by simp
  show ?thesis
    using p v by (simp add: getMockStockData_def getFallbackStockInfo_def Let_def)
qed

theorem synthetic_quote_witness:
  "unitDraws (\<lambda>k. 1 / 2)
   \<and> StockData.currentPrice (getMockStockData ''aapl'' (\<lambda>k. 1 / 2)) = 150
   \<and> StockData.volume (getMockStockData ''aapl'' (\<lambda>k. 1 / 2)) = 50000000
   \<and> StockData.symbol (getMockStockData ''aapl'' (\<lambda>k. 1 / 2)) = ''AAPL''
   \<and> StockData.name (getMockStockData ''aapl'' (\<lambda>k. 1 / 2)) = ''AAPL Corporation''
   \<and> StockInfo.symbol (getFallbackStockInfo ''aapl'' (\<lambda>k. 1 / 2)) = ''AAPL''
   \<and> StockInfo.name (getFallbackStockInfo ''aapl'' (\<lambda>k. 1 / 2)) = ''AAPL Corporation''"
proof -
  have u: "unitDraws (\<lambda>k. 1 / 2)"
    by (simp add: unitDraws_def)
  have up: "toUpperCase ''aapl'' = ''AAPL''"
    by (simp add: toUpperCase_def upperChar_def char_of_def bit_Suc_0_iff)
  have "StockData.currentPrice (getMockStockData ''aapl'' (\<lambda>k. 1 / 2)) = 150"
       "StockData.volume (getMockStockData ''aapl'' (\<lambda>k. 1 / 2)) = 50000000"
    by (simp_all add: getMockStockData_def Let_def)
  then show ?thesis
    using u synthetic_quote [OF u, of "''aapl''" "''aapl''"] by (simp add: up)
qed

subsection \<open>Synthetic historical data\<close>




















subsection \<open>Resolution of the provider and the forecast fallback\<close>

lemma mockPredictionLoop_step:
  "i \<le> 3 \<Longrightarrow>
   mockPredictionLoop i z clock rnd m n price points =
   mockPredictionLoop (i + 1) z clock rnd (m + 1) (n + 2) price
     (points @ [mockPoint i z clock rnd m n price])"
  by (subst mockPredictionLoop.simps) (simp add: Let_def mockPoint_def)

lemma mockPredictionLoop_exit:
  "3 < i \<Longrightarrow> mockPredictionLoop i z clock rnd m n price points = points"
  by (subst mockPredictionLoop.simps) simp

lemma mockPredictionLoop_round:
  "mockPredictionLoop (4 - int (Suc k)) z clock rnd m n price points =
   mockPredictionLoop (4 - int k) z clock rnd (m + 1) (n + 2) price
     (points @ [mockPoint (4 - int (Suc k)) z clock rnd m n price])"
  using mockPredictionLoop_step [of "4 - int (Suc k)" z clock rnd m n price points]
  by (simp add: algebra_simps)

lemma mockPredictionLoop_length:
  "length (mockPredictionLoop (4 - int k) z clock rnd m n price points) = length points + k"
proof (induction k arbitrary: m n points)
  case 0
  then show ?case by (simp add: mockPredictionLoop_exit)
next
  case (Suc k)
  show ?case
    unfolding mockPredictionLoop_round by (simp add: Suc.IH)
qed

lemma mockPoint_bracketed:
  assumes "unitDraws rnd" and "5 \<le> price"
  shows "bracketed (mockPoint i z clock rnd m n price)"
proof -
  have "0 \<le> rnd n"
    using assms(1) by (simp add: unitDraws_def)
  then have "0 \<le> price + (rnd n - 0.5) * 10"
    using assms(2) by simp
  then show ?thesis
    by (simp add: bracketed_def mockPoint_def Let_def)
qed

lemma mockPredictionLoop_bracketed:
  "unitDraws rnd \<Longrightarrow> 5 \<le> price \<Longrightarrow> list_all bracketed points
   \<Longrightarrow> list_all bracketed (mockPredictionLoop (4 - int k) z clock rnd m n price points)"
proof (induction k arbitrary: m n points)
  case 0
  then show ?case by (simp add: mockPredictionLoop_exit)
next
  case (Suc k)
  have "list_all bracketed (points @ [mockPoint (4 - int (Suc k)) z clock rnd m n price])"
    using Suc.prems by (simp add: mockPoint_bracketed)
  then show ?case
    unfolding mockPredictionLoop_round using Suc.IH Suc.prems(1,2) by simp
qed

lemma getMockPredictionResult_length:
  "length (ModelPredictionResult.predictions (getMockPredictionResult ticker z clock rnd)) = 3"
proof -
  have "ModelPredictionResult.predictions (getMockPredictionResult ticker z clock rnd)
        = mockPredictionLoop (4 - int 3) z clock rnd 0 0 150 []"
    by (simp add: getMockPredictionResult_def Let_def)
  then show ?thesis
    using mockPredictionLoop_length [of 3 z clock rnd 0 0 150 "[]"] by simp
qed

lemma getMockPredictionResult_bracketed:
  assumes "unitDraws rnd"
  shows "list_all bracketed
           (ModelPredictionResult.predictions (getMockPredictionResult ticker z clock rnd))"
proof -
  have "ModelPredictionResult.predictions (getMockPredictionResult ticker z clock rnd)
        = mockPredictionLoop (4 - int 3) z clock rnd 0 0 150 []"
    by (simp add: getMockPredictionResult_def Let_def)
  then show ?thesis
    using mockPredictionLoop_bracketed [OF assms, of 150 "[]" 3 z clock 0 0] by simp
qed

lemma awaitJson_failure:
  "upstreamFailure fetched \<Longrightarrow> \<exists>e. awaitJson msg fetched = Inl e"
  by (cases fetched) (auto simp: upstreamFailure_def awaitJson_def isl_def)

text \<open>The provider's methods always resolve.\<close>

lemma getStockData_resolves:
  "getStockData ticker w =
     Inr (case awaitJson ''Failed to fetch stock data: '' (fetchStock w) of
            Inr d \<Rightarrow> d | Inl e \<Rightarrow> ofStockData (getMockStockData ticker (randomStock w)))"
  by (simp add: getStockData_def split: sum.splits)

lemma getHistoricalData_resolves:
  "getHistoricalData ticker period w =
     Inr (case awaitJson ''Failed to fetch historical data: '' (fetchHistorical w) of
            Inr d \<Rightarrow> d
          | Inl e \<Rightarrow>
              Array (map (ofHistoricalData w)
                (getMockHistoricalData ticker (timeZone w) (clockHistorical w)
                   (randomHistorical w))))"
  by (simp add: getHistoricalData_def split: sum.splits)

lemma getNewsWithSentiment_resolves:
  "getNewsWithSentiment ticker w =
     Inr (case awaitJson ''Failed to fetch news data: '' (fetchNews w) of
            Inr d \<Rightarrow> d
          | Inl e \<Rightarrow> Array (map (ofNewsData w) (getMockNewsData ticker (clockNews w))))"
  by (simp add: getNewsWithSentiment_def split: sum.splits)

lemma generatePredictions_resolves: "\<exists>r. generatePredictions ticker w = Inr r"
  by (cases "generatePredictions ticker w")
    (auto simp: generatePredictions_def Let_def split: sum.splits if_splits)

lemma provided_resolves: "\<exists>v. provided opn ticker w = Inr v"
  by (cases opn)
    (simp_all add: getStockData_resolves getNewsWithSentiment_resolves
      generatePredictions_resolves)



lemma generatePredictions_failure:
  assumes "upstreamFailure (fetchPredict w)"
  shows "generatePredictions ticker w =
     Inr (ofModelPredictionResult w
            (getMockPredictionResult ticker (timeZone w) (clockPrediction w)
               (randomPrediction w)))"
proof -
  obtain e where "awaitJson ''Failed to generate predictions: '' (fetchPredict w) = Inl e"
    using awaitJson_failure [OF assms] by blast
  then show ?thesis
    by (simp add: generatePredictions_def Let_def split: sum.splits)
qed





lemma mapM_close:
  "mapM (\<lambda>h. getProp h ''close'') (map (ofHistoricalData w) xs) = Inr (map (\<lambda>b. num (close b)) xs)"
  by (induction xs) (simp_all add: getProp_def nullish_def ofHistoricalData_def propOf_def)

lemma mapM_predictedPrice:
  "mapM (\<lambda>p. getProp p ''predictedPrice'') (map (ofLSTMPrediction w) xs)
     = Inr (map (\<lambda>p. num (predictedPrice p)) xs)"
  by (induction xs) (simp_all add: getProp_def nullish_def ofLSTMPrediction_def propOf_def)

lemma sliceLast_map: "sliceLast k (map f xs) = map f (sliceLast k xs)"
  by (simp add: sliceLast_def drop_map)

lemma toPredictionData_typed:
  "toPredictionData w (ofModelPredictionResult w r)
     = Inr (ofPredictionData w (predictionDataOf w r))"
proof -
  have h: "getProp (ofModelPredictionResult w r) ''historical''
             = Inr (Array (map (ofHistoricalData w) (ModelPredictionResult.historical r)))"
    and p: "propOf (ofModelPredictionResult w r) ''predictions''
             = Array (map (ofLSTMPrediction w) (ModelPredictionResult.predictions r))"
    and t: "propOf (ofModelPredictionResult w r) ''trend''
             = Str (trendLabel (ModelPredictionResult.trend r))"
    and c: "propOf (ofModelPredictionResult w r) ''confidence''
             = num (ModelPredictionResult.confidence r)"
    by (simp_all add: ofModelPredictionResult_def getProp_def propOf_def nullish_def)
  have closes: "arrayMap
      (Array (map (ofHistoricalData w) (sliceLast 4 (ModelPredictionResult.historical r))))
      (\<lambda>h. getProp h ''close'')
    = Inr (Array (map (\<lambda>b. num (close b)) (sliceLast 4 (ModelPredictionResult.historical r))))"
    by (simp add: arrayMap_def mapM_close)
  have prices: "arrayMap
      (Array (map (ofLSTMPrediction w) (ModelPredictionResult.predictions r)))
      (\<lambda>p. getProp p ''predictedPrice'')
    = Inr (Array (map (\<lambda>p. num (predictedPrice p)) (ModelPredictionResult.predictions r)))"
    by (simp add: arrayMap_def mapM_predictedPrice)
  have conf: "Number (numFloor (numMul (toNumber w (num (ModelPredictionResult.confidence r)))
                  (Finite 100)))
              = num (of_int \<lfloor>ModelPredictionResult.confidence r * 100\<rfloor>)"
    by (simp add: toNumber_def num_def numMul_def numFloor_def)
  show ?thesis
    unfolding toPredictionData_def h p t c conf
    by (cases "ModelPredictionResult.trend r")
      (simp_all add: sliceMinus4_def sliceLast_map closes prices Let_def trendLabel_def
        ofPredictionData_def predictionDataOf_def comp_def)
qed

text \<open>What a call comes to, by the outcome of its cache check and of its \<open>try\<close> block.\<close>

lemma call_hit:
  assumes "cacheGet c (cacheKeyOf opn ticker) (nowCheck w) = Some d"
  shows "call opn ticker w c = \<lparr>settled = Inr d, cacheAfter = c, providerCalls = []\<rparr>"
  using assms
  by (cases opn) (simp_all add: getStockInfo_def getPredictions_def getNews_def)

lemma call_stored:
  assumes "cacheGet c (cacheKeyOf opn ticker) (nowCheck w) = None"
    and "provided opn ticker w = Inr v" and "transform opn w v = Inr x"
  shows "call opn ticker w c =
     \<lparr>settled = Inr x, cacheAfter = cacheSet c (cacheKeyOf opn ticker) x (nowStore w),
      providerCalls = [providerCallOf opn ticker]\<rparr>"
  using assms
  by (cases opn) (simp_all add: getStockInfo_def getPredictions_def getNews_def)

lemma call_caught:
  assumes "cacheGet c (cacheKeyOf opn ticker) (nowCheck w) = None"
    and "provided opn ticker w = Inr v" and "transform opn w v = Inl e"
  shows "call opn ticker w c =
     \<lparr>settled = Inr (fallback opn ticker w), cacheAfter = c,
      providerCalls = [providerCallOf opn ticker]\<rparr>"
  using assms
  by (cases opn) (simp_all add: getStockInfo_def getPredictions_def getNews_def)


lemma call_settles: "\<exists>d. settled (call opn ticker w c) = Inr d"
proof (cases "cacheGet c (cacheKeyOf opn ticker) (nowCheck w)")
  case (Some d)
  then show ?thesis by (simp add: call_hit)
next
  case None
  obtain v where v: "provided opn ticker w = Inr v"
    using provided_resolves by blast
  show ?thesis
  proof (cases "transform opn w v")
    case (Inl e)
    then show ?thesis by (simp add: call_caught [OF None v])
  next
    case (Inr x)
    then show ?thesis by (simp add: call_stored [OF None v])
  qed
qed

text \<open>
  Claim C4. If the forecast request fails (the request rejects, the status is not a
  success, or the body does not parse), \<open>generatePredictions\<close> resolves with the fully
  synthetic result of \<open>getMockPredictionResult\<close>, which has exactly 3 forecast points,
  each with \<open>upperBound \<ge> predictedPrice \<ge> lowerBound\<close>; and \<open>getPredictions\<close> resolves
  for every ticker and cache: on a cache miss with the transformation of that synthetic
  result, which carries its 3 predicted prices.
\<close>

theorem forecast_failure_fallback:
  assumes "unitDraws (randomPrediction w)" and "upstreamFailure (fetchPredict w)"
  shows "generatePredictions ticker w =
           Inr (ofModelPredictionResult w
                  (getMockPredictionResult ticker (timeZone w) (clockPrediction w)
                     (randomPrediction w)))
     \<and> length (ModelPredictionResult.predictions
                 (getMockPredictionResult ticker (timeZone w) (clockPrediction w)
                    (randomPrediction w))) = 3
     \<and> list_all bracketed (ModelPredictionResult.predictions
                 (getMockPredictionResult ticker (timeZone w) (clockPrediction w)
                    (randomPrediction w)))
     \<and> (\<exists>d. settled (getPredictions ticker w c) = Inr d)
     \<and> (cacheGet c (''predictions_'' @ ticker) (nowCheck w) = None \<longrightarrow>
          settled (getPredictions ticker w c)
            = Inr (ofPredictionData w
                     (predictionDataOf w
                        (getMockPredictionResult ticker (timeZone w) (clockPrediction w)
                           (randomPrediction w))))
          \<and> propOf (ofPredictionData w
                     (predictionDataOf w
                        (getMockPredictionResult ticker (timeZone w) (clockPrediction w)
                           (randomPrediction w)))) ''predictions''
              = Array (map (\<lambda>p. num (predictedPrice p))
                        (ModelPredictionResult.predictions
                           (getMockPredictionResult ticker (timeZone w) (clockPrediction w)
                              (randomPrediction w)))))"
proof (intro conjI impI)
  let ?mock = "getMockPredictionResult ticker (timeZone w) (clockPrediction w)
                 (randomPrediction w)"
  show g: "generatePredictions ticker w = Inr (ofModelPredictionResult w ?mock)"
    by (rule generatePredictions_failure [OF assms(2)])
  show "length (ModelPredictionResult.predictions ?mock) = 3"
    by (rule getMockPredictionResult_length)
  show "list_all bracketed (ModelPredictionResult.predictions ?mock)"
    by (rule getMockPredictionResult_bracketed [OF assms(1)])
  show "\<exists>d. settled (getPredictions ticker w c) = Inr d"
    using call_settles [of GetPredictions ticker w c] by simp
  show "settled (getPredictions ticker w c)
          = Inr (ofPredictionData w (predictionDataOf w ?mock))"
    if "cacheGet c (''predictions_'' @ ticker) (nowCheck w) = None"
    using that g by (simp add: getPredictions_def toPredictionData_typed)
  show "propOf (ofPredictionData w (predictionDataOf w ?mock)) ''predictions''
          = Array (map (\<lambda>p. num (predictedPrice p)) (ModelPredictionResult.predictions ?mock))"
    by (simp add: ofPredictionData_def predictionDataOf_def propOf_def comp_def)
qed

text \<open>With every request failing, draws of one half and a clock standing at one instant:
  the three forecast prices are 150, the last four closing prices 100.\<close>

lemma offline_synthetic_predictions:
  "synthetic GetPredictions ticker offlineWorld =
     Object [(''historical'', Array [num 100, num 100, num 100, num 100]),
             (''predictions'', Array [num 150, num 150, num 150]),
             (''dates'',
                Array [Str ''1761740800000'', Str ''1761827200000'', Str ''1761913600000'',
                       Str ''1762000000000'', Str ''1762086400000'', Str ''1762172800000'',
                       Str ''1762259200000'']),
             (''trend'', Str ''Bullish''), (''confidence'', num 82)]"
  by (simp add: ofPredictionData_def predictionDataOf_def getMockPredictionResult_def
      getMockHistoricalData_def mockHistoricalLoop.simps mockPredictionLoop.simps
      offlineWorld_def fixedZone_def setDate_def msPerDay_def sliceLast_def
      numberToString_def decimal.simps char_of_def bit_Suc_0_iff Let_def)

theorem forecast_failure_fallback_witness:
  "unitDraws (randomPrediction offlineWorld) \<and> upstreamFailure (fetchPredict offlineWorld)
   \<and> cacheGet [] (''predictions_'' @ ''TSLA'') (nowCheck offlineWorld) = None
   \<and> generatePredictions ''TSLA'' offlineWorld =
           Inr (ofModelPredictionResult offlineWorld
                  (getMockPredictionResult ''TSLA'' (timeZone offlineWorld)
                     (clockPrediction offlineWorld) (randomPrediction offlineWorld)))
   \<and> length (ModelPredictionResult.predictions
                 (getMockPredictionResult ''TSLA'' (timeZone offlineWorld)
                    (clockPrediction offlineWorld) (randomPrediction offlineWorld))) = 3
   \<and> list_all bracketed (ModelPredictionResult.predictions
                 (getMockPredictionResult ''TSLA'' (timeZone offlineWorld)
                    (clockPrediction offlineWorld) (randomPrediction offlineWorld)))
   \<and> settled (getPredictions ''TSLA'' offlineWorld [])
       = Inr (Object
           [(''historical'', Array [num 100, num 100, num 100, num 100]),
            (''predictions'', Array [num 150, num 150, num 150]),
            (''dates'',
               Array [Str ''1761740800000'', Str ''1761827200000'', Str ''1761913600000'',
                      Str ''1762000000000'', Str ''1762086400000'', Str ''1762172800000'',
                      Str ''1762259200000'']),
            (''trend'', Str ''Bullish''), (''confidence'', num 82)])"
proof -
  have u: "unitDraws (randomPrediction offlineWorld)"
    by (simp add: unitDraws_def offlineWorld_def)
  have f: "upstreamFailure (fetchPredict offlineWorld)"
    by (simp add: upstreamFailure_def offlineWorld_def)
  have m: "cacheGet [] (''predictions_'' @ ''TSLA'') (nowCheck offlineWorld) = None"
    by (simp add: cacheGet_def)
  show ?thesis
    using u f m forecast_failure_fallback [OF u f, of "''TSLA''" "[]"]
    by (simp add: offline_synthetic_predictions [of "''TSLA''", unfolded synthetic.simps])
qed

subsection \<open>The public operations never reject\<close>




















































subsection \<open>Reuse of cached payloads\<close>




















subsection \<open>What a failed fetch leaves in the cache\<close>





end
